theory Spec2Isabelle
  imports Main "HOL-Library.AList"
begin

section \<open>Text\<close>

text \<open>
  The script \<^verbatim>\<open>scripts/setup-test-users.cjs\<close> handles text in three places: the
  settings file it parses, the process environment, and the console. A text is modelled
  as a \<open>string\<close> holding its UTF-8 bytes (the settings file is read with encoding
  \<^verbatim>\<open>'utf8'\<close>, the console writes UTF-8). The separators the script splits at
  (\<^verbatim>\<open>'\n'\<close>, \<^verbatim>\<open>'='\<close>) and the comment mark \<^verbatim>\<open>'#'\<close> are ASCII, and an ASCII byte
  never occurs inside a multi-byte UTF-8 sequence, so splitting bytes is splitting
  characters.
\<close>

text \<open>
  \<^verbatim>\<open>String.prototype.trim\<close> removes the ECMAScript white space and line terminators
  from both ends: U+0009..U+000D, U+0020 (one byte each), U+00A0 (two bytes),
  U+1680, U+2000..U+200A, U+2028, U+2029, U+202F, U+205F, U+3000 and U+FEFF (three bytes
  each).
\<close>

definition ws1 :: "char \<Rightarrow> bool" where
  "ws1 a = (a = CHR 0x09 \<or> a = CHR 0x0A \<or> a = CHR 0x0B \<or> a = CHR 0x0C \<or> a = CHR 0x0D
            \<or> a = CHR 0x20)"

definition ws2 :: "char \<Rightarrow> char \<Rightarrow> bool" where
  "ws2 a b = (a = CHR 0xC2 \<and> b = CHR 0xA0)"

definition ws3 :: "char \<Rightarrow> char \<Rightarrow> char \<Rightarrow> bool" where
  "ws3 a b c =
     ((a = CHR 0xE1 \<and> b = CHR 0x9A \<and> c = CHR 0x80)
      \<or> (a = CHR 0xE2 \<and> b = CHR 0x80
          \<and> ((0x80 \<le> (of_char c :: nat) \<and> (of_char c :: nat) \<le> 0x8A)
              \<or> c = CHR 0xA8 \<or> c = CHR 0xA9 \<or> c = CHR 0xAF))
      \<or> (a = CHR 0xE2 \<and> b = CHR 0x81 \<and> c = CHR 0x9F)
      \<or> (a = CHR 0xE3 \<and> b = CHR 0x80 \<and> c = CHR 0x80)
      \<or> (a = CHR 0xEF \<and> b = CHR 0xBB \<and> c = CHR 0xBF))"

fun trimStart :: "string \<Rightarrow> string" where
  "trimStart (a # b # c # s) =
     (if ws1 a then trimStart (b # c # s)
      else if ws2 a b then trimStart (c # s)
      else if ws3 a b c then trimStart s
      else a # b # c # s)"
| "trimStart [a, b] = (if ws1 a then trimStart [b] else if ws2 a b then [] else [a, b])"
| "trimStart [a] = (if ws1 a then [] else [a])"
| "trimStart [] = []"

text \<open>The same from the end, on the reversed text: \<open>c\<close> is the last byte.\<close>

fun trimEnd_rev :: "string \<Rightarrow> string" where
  "trimEnd_rev (c # b # a # r) =
     (if ws1 c then trimEnd_rev (b # a # r)
      else if ws2 b c then trimEnd_rev (a # r)
      else if ws3 a b c then trimEnd_rev r
      else c # b # a # r)"
| "trimEnd_rev [c, b] = (if ws1 c then trimEnd_rev [b] else if ws2 b c then [] else [c, b])"
| "trimEnd_rev [c] = (if ws1 c then [] else [c])"
| "trimEnd_rev [] = []"

definition trim :: "string \<Rightarrow> string" where
  "trim s = rev (trimEnd_rev (rev (trimStart s)))"

text \<open>
  \<^verbatim>\<open>s.split(c)\<close> for a one-character separator: the pieces between the separators,
  never an empty list (\<^verbatim>\<open>''.split('=')\<close> is \<^verbatim>\<open>['']\<close>). \<^verbatim>\<open>parts.join(c)\<close> puts the
  separator back between the pieces.
\<close>

fun split_on :: "char \<Rightarrow> string \<Rightarrow> string list" where
  "split_on c [] = [[]]"
| "split_on c (x # xs) =
     (if x = c then [] # split_on c xs
      else (case split_on c xs of [] \<Rightarrow> [[x]] | p # ps \<Rightarrow> (x # p) # ps))"

fun join_with :: "char \<Rightarrow> string list \<Rightarrow> string" where
  "join_with c [] = []"
| "join_with c [p] = p"
| "join_with c (p # q # ps) = p @ c # join_with c (q # ps)"

definition startsWith :: "string \<Rightarrow> string \<Rightarrow> bool" where
  "startsWith s p = (take (length p) s = p)"

section \<open>The settings file: \<^verbatim>\<open>loadEnvFile\<close>\<close>

text \<open>
  \<^verbatim>\<open>envVars\<close> is a plain object used as a dictionary from names to strings: its
  properties in the order of their creation, each name once. Assigning to a name that is
  there replaces its value in place; assigning to a new name adds the property at the
  end. Assigning a string to the key \<^verbatim>\<open>__proto__\<close> of a plain object runs the inherited
  setter, which ignores a value that is not an object: no property is stored.
\<close>

type_synonym js_object = "(string \<times> string) list"

definition obj_set :: "js_object \<Rightarrow> string \<Rightarrow> string \<Rightarrow> js_object" where
  "obj_set obj k v = (if k = ''__proto__'' then obj else AList.update k v obj)"

text \<open>
  The body of the \<^verbatim>\<open>forEach\<close> callback (source lines 16 to 22), as a function from the
  object before the line to the object after it. An empty string is falsy in JavaScript,
  so \<^verbatim>\<open>key && ...\<close> and \<^verbatim>\<open>value && ...\<close> test for non-emptiness.
\<close>

definition env_line :: "js_object \<Rightarrow> string \<Rightarrow> js_object" where
  "env_line envVars line =
     (case split_on CHR ''='' line of
        [] \<Rightarrow> envVars
      | key # valueParts \<Rightarrow>
          if key \<noteq> [] \<and> valueParts \<noteq> [] then
            (let v = trim (join_with CHR ''='' valueParts) in
             if v \<noteq> [] \<and> \<not> startsWith key ''#'' then obj_set envVars (trim key) v
             else envVars)
          else envVars)"

datatype stream = Stdout | Stderr

type_synonym console = "(stream \<times> string) list"

text \<open>The glyph U+274C that starts the script's error messages, in UTF-8.\<close>

definition cross_mark :: string where
  "cross_mark = [CHR 0xE2, CHR 0x9D, CHR 0x8C]"

text \<open>
  The file system is the argument: \<open>None\<close> when \<^verbatim>\<open>fs.existsSync(envPath)\<close> is false,
  \<open>Some content\<close> when the file exists and \<^verbatim>\<open>readFileSync\<close> returns \<open>content\<close> (a file
  that exists is taken to be readable). The result is the returned object and the lines
  written to the console.
\<close>

definition loadEnvFile :: "string option \<Rightarrow> js_object \<times> console" where
  "loadEnvFile file =
     (case file of
        None \<Rightarrow> ([], [(Stderr, cross_mark @ '' .env file not found'')])
      | Some envContent \<Rightarrow> (foldl env_line [] (split_on CHR 0x0A envContent), []))"

text \<open>
  \<^verbatim>\<open>process.env\<close> is not a plain object: it is the environment of the operating system
  process, a mapping from names to strings. Assigning \<^verbatim>\<open>process.env[k] = v\<close> hands both
  strings to \<^verbatim>\<open>setenv\<close> as C strings, so each ends at its first NUL character, and
  \<^verbatim>\<open>setenv\<close> refuses a name that is empty or contains \<open>=\<close>; the refusal is not reported
  and the environment stays as it was. (This is the behaviour on a POSIX system, where
  names are case sensitive.)
\<close>

type_synonym env_vars = "string \<rightharpoonup> string"

definition cstr :: "string \<Rightarrow> string" where
  "cstr s = takeWhile (\<lambda>c. c \<noteq> CHR 0x00) s"

definition env_set :: "env_vars \<Rightarrow> string \<Rightarrow> string \<Rightarrow> env_vars" where
  "env_set env k v =
     (if cstr k = [] \<or> CHR ''='' \<in> set (cstr k) then env else env(cstr k \<mapsto> cstr v))"

text \<open>
  The own property keys of a plain object, in the order in which \<^verbatim>\<open>Object.assign\<close> reads
  them: first the array indices (the decimal numerals below \<open>2\<^sup>3\<^sup>2 - 1\<close> with no leading
  zero) in ascending order, then the other names in the order of their creation.
\<close>

definition is_digit :: "char \<Rightarrow> bool" where
  "is_digit c = (48 \<le> (of_char c :: nat) \<and> (of_char c :: nat) \<le> 57)"

definition digits_value :: "string \<Rightarrow> nat" where
  "digits_value s = foldl (\<lambda>n c. 10 * n + ((of_char c :: nat) - 48)) 0 s"

definition is_array_index :: "string \<Rightarrow> bool" where
  "is_array_index k =
     (k \<noteq> [] \<and> list_all is_digit k \<and> (k = ''0'' \<or> hd k \<noteq> CHR ''0'')
      \<and> digits_value k < 4294967295)"

definition own_keys :: "js_object \<Rightarrow> string list" where
  "own_keys obj =
     sort_key digits_value (filter is_array_index (map fst obj))
     @ filter (\<lambda>k. \<not> is_array_index k) (map fst obj)"

text \<open>
  \<^verbatim>\<open>Object.assign(process.env, env)\<close> (source line 29): for every own property of \<open>env\<close>,
  in the order of \<open>own_keys\<close>, the assignment \<^verbatim>\<open>process.env[k] = env[k]\<close>.
\<close>

definition Object_assign :: "env_vars \<Rightarrow> js_object \<Rightarrow> env_vars" where
  "Object_assign target source =
     foldl (\<lambda>env k. case map_of source k of None \<Rightarrow> env | Some v \<Rightarrow> env_set env k v)
       target (own_keys source)"

text \<open>
  What the merge writes, in words: the properties in the order of \<open>own_keys\<close>, name and
  value cut at the first NUL, the names that are then empty or contain \<open>=\<close> left out.
\<close>

definition env_writes :: "js_object \<Rightarrow> (string \<times> string) list" where
  "env_writes obj =
     List.map_filter
       (\<lambda>k. case map_of obj k of
               None \<Rightarrow> None
             | Some v \<Rightarrow>
                 if cstr k = [] \<or> CHR ''='' \<in> set (cstr k) then None
                 else Some (cstr k, cstr v))
       (own_keys obj)"

text \<open>
  What one line of the file contributes, in the words of the contract: the name is the
  text before the first \<open>=\<close>, the value the text after it, both trimmed.
\<close>

definition line_entry :: "string \<Rightarrow> (string \<times> string) option" where
  "line_entry line =
     (let key = takeWhile (\<lambda>c. c \<noteq> CHR ''='') line;
          rest = dropWhile (\<lambda>c. c \<noteq> CHR ''='') line
      in if key = [] \<or> rest = [] \<or> trim (tl rest) = [] \<or> startsWith line ''#'' then None
         else Some (trim key, trim (tl rest)))"

section \<open>Console glyphs\<close>

text \<open>The non-ASCII glyphs of the script's messages, as their UTF-8 bytes.\<close>

definition check_mark :: string where
  "check_mark = [CHR 0xE2, CHR 0x9C, CHR 0x85]"

definition warning_sign :: string where
  "warning_sign = [CHR 0xE2, CHR 0x9A, CHR 0xA0, CHR 0xEF, CHR 0xB8, CHR 0x8F]"

definition busts :: string where
  "busts = [CHR 0xF0, CHR 0x9F, CHR 0x91, CHR 0xA5]"

definition lock_key :: string where
  "lock_key = [CHR 0xF0, CHR 0x9F, CHR 0x94, CHR 0x90]"

definition red_circle :: string where
  "red_circle = [CHR 0xF0, CHR 0x9F, CHR 0x94, CHR 0xB4]"

definition blue_circle :: string where
  "blue_circle = [CHR 0xF0, CHR 0x9F, CHR 0x94, CHR 0xB5]"

definition green_circle :: string where
  "green_circle = [CHR 0xF0, CHR 0x9F, CHR 0x9F, CHR 0xA2]"

definition memo :: string where
  "memo = [CHR 0xF0, CHR 0x9F, CHR 0x93, CHR 0x9D]"

definition clipboard :: string where
  "clipboard = [CHR 0xF0, CHR 0x9F, CHR 0x93, CHR 0x8B]"

section \<open>Database bootstrap\<close>

text \<open>
  \<^verbatim>\<open>firebase-admin\<close> is a dependency, not code of this repository: its four entry
  points are parameters. A call that throws returns \<open>Inl\<close> of the error's message; a
  handle stands for the credential, app or database object a call returns.
\<close>

type_synonym handle = nat

record service_account =
  projectId :: "string option"
  clientEmail :: "string option"
  privateKey :: string

record firebase_admin =
  getApps :: "handle list"
  cert :: "service_account \<Rightarrow> string + handle"
  initializeApp :: "handle \<Rightarrow> string + handle"
  getFirestore :: "handle \<Rightarrow> string + handle"

text \<open>\<^verbatim>\<open>key.replace(/\\n/g, "\n")\<close>: every backslash followed by \<open>n\<close> becomes a line feed.\<close>

fun unescape_newlines :: "string \<Rightarrow> string" where
  "unescape_newlines (a # b # s) =
     (if a = CHR 0x5C \<and> b = CHR ''n'' then CHR 0x0A # unescape_newlines s
      else a # unescape_newlines (b # s))"
| "unescape_newlines s = s"

text \<open>
  The message of the \<^verbatim>\<open>TypeError\<close> that \<^verbatim>\<open>process.env.FIREBASE_PRIVATE_KEY.replace\<close>
  throws when the variable is not set.
\<close>

definition undefined_replace :: string where
  "undefined_replace = ''Cannot read properties of undefined (reading 'replace')''"

text \<open>
  The body of the \<^verbatim>\<open>try\<close> block of source lines 42 to 57, up to the database handle:
  \<open>Inl\<close> of the message when anything in it throws.
\<close>

definition initFirebase :: "firebase_admin \<Rightarrow> env_vars \<Rightarrow> string + handle" where
  "initFirebase lib penv =
     (case getApps lib of
        [] \<Rightarrow>
          (case penv ''FIREBASE_PRIVATE_KEY'' of
             None \<Rightarrow> Inl undefined_replace
           | Some key \<Rightarrow>
               (case cert lib \<lparr>projectId = penv ''FIREBASE_PROJECT_ID'',
                                clientEmail = penv ''FIREBASE_CLIENT_EMAIL'',
                                privateKey = unescape_newlines key\<rparr> of
                  Inl err \<Rightarrow> Inl err
                | Inr credential \<Rightarrow>
                    (case initializeApp lib credential of
                       Inl err \<Rightarrow> Inl err
                     | Inr app \<Rightarrow> getFirestore lib app)))
      | app # _ \<Rightarrow> getFirestore lib app)"

section \<open>The document store\<close>

text \<open>
  A document is an object: its fields in order. A collection holds documents under
  string keys. \<^verbatim>\<open>doc(key).set(d)\<close> creates or replaces the document at the key
  (\<open>AList.update\<close>); \<^verbatim>\<open>where(field, '==', v).get()\<close> returns the documents whose field
  equals the value.
\<close>

datatype jsval = Str string | Bool bool | Date int

type_synonym document = "(string \<times> jsval) list"

type_synonym collection = "(string \<times> document) list"

record firestore =
  users :: collection
  merchants :: collection

definition where_eq :: "string \<Rightarrow> jsval \<Rightarrow> collection \<Rightarrow> collection" where
  "where_eq field v coll = filter (\<lambda>(k, d). map_of d field = Some v) coll"

text \<open>
  Every request the script sends is recorded, also one that fails: the collection name
  comes first in the two database requests.
\<close>

datatype request =
    Where_get string string jsval
  | Hash string nat
  | Doc_set string string document

record process = firestore +
  console :: console
  requests :: "request list"

definition log :: "stream \<Rightarrow> string \<Rightarrow> process \<Rightarrow> process" where
  "log st line p = p\<lparr>console := console p @ [(st, line)]\<rparr>"

definition sent :: "request \<Rightarrow> process \<Rightarrow> process" where
  "sent r p = p\<lparr>requests := requests p @ [r]\<rparr>"

section \<open>The seeder\<close>

record seed_user =
  email :: string
  password :: string
  displayName :: string
  role :: string
  uid :: string
  data :: document

text \<open>
  The three \<^verbatim>\<open>new Date()\<close> of the list are evaluated when the module loads; \<open>clock i\<close>
  is the time the \<open>i\<close>-th of them reads.
\<close>

definition testUsers :: "(nat \<Rightarrow> int) \<Rightarrow> seed_user list" where
  "testUsers clock =
     [\<lparr>email = ''admin@eventnft.app'', password = ''Admin123!'',
       displayName = ''Admin User'', role = ''admin'', uid = ''admin-user-001'',
       data = [(''id'', Str ''admin-user-001''),
               (''email'', Str ''admin@eventnft.app''),
               (''displayName'', Str ''Admin User''),
               (''role'', Str ''admin''),
               (''walletAddress'', Str ''ADMIN_WALLET_ADDRESS''),
               (''isVerified'', Bool True),
               (''createdAt'', Date (clock 0))]\<rparr>,
      \<lparr>email = ''merchant@eventnft.app'', password = ''Merchant123!'',
       displayName = ''Event Organizer'', role = ''merchant'', uid = ''merchant-user-001'',
       data = [(''id'', Str ''merchant-user-001''),
               (''businessName'', Str ''Music Festival Co.''),
               (''email'', Str ''merchant@eventnft.app''),
               (''category'', Str ''Entertainment''),
               (''description'', Str ''Leading music festival organizer''),
               (''walletAddress'', Str ''MERCHANT_WALLET_ADDRESS''),
               (''isApproved'', Bool True),
               (''uid'', Str ''merchant-user-001''),
               (''role'', Str ''merchant''),
               (''createdAt'', Date (clock 1))]\<rparr>,
      \<lparr>email = ''user@eventnft.app'', password = ''User123!'',
       displayName = ''Regular User'', role = ''user'', uid = ''regular-user-001'',
       data = [(''id'', Str ''regular-user-001''),
               (''email'', Str ''user@eventnft.app''),
               (''displayName'', Str ''Regular User''),
               (''role'', Str ''user''),
               (''walletAddress'', Str ''USER_WALLET_ADDRESS''),
               (''isVerified'', Bool True),
               (''createdAt'', Date (clock 2))]\<rparr>]"

text \<open>
  What a run does not decide itself. A database request or the hashing may reject:
  \<open>faults i st\<close> is \<open>Some message\<close> when step \<open>st\<close> of the \<open>i\<close>-th record of the list
  rejects with that message, and a request that rejects changes nothing in the store.
  Nothing else writes to the store while the script runs.
  \<^verbatim>\<open>bcryptjs\<close> is a dependency: \<open>bcrypt_hash pw rounds\<close> is what \<^verbatim>\<open>bcrypt.hash\<close> resolves
  to in this run (the salt it draws is part of the run).
\<close>

datatype step = Check | Hashing | Write_user | Write_merchant

record runtime =
  faults :: "nat \<Rightarrow> step \<Rightarrow> string option"
  bcrypt_hash :: "string \<Rightarrow> nat \<Rightarrow> string"
  clock :: "nat \<Rightarrow> int"

text \<open>
  The \<^verbatim>\<open>catch\<close> of the loop body (source line 146): \<^verbatim>\<open>console.error\<close> writes its two
  arguments with a space between them.
\<close>

definition failed_user :: "seed_user \<Rightarrow> string \<Rightarrow> process \<Rightarrow> process" where
  "failed_user user err p =
     log Stderr (cross_mark @ '' Failed to create user '' @ email user @ '': '' @ err) p"

definition created_line :: "seed_user \<Rightarrow> string" where
  "created_line user = check_mark @ '' Created '' @ role user @ '' user: '' @ email user"

definition exists_line :: "seed_user \<Rightarrow> string" where
  "exists_line user = warning_sign @ ''  User already exists: '' @ email user"

text \<open>
  \<^verbatim>\<open>{ ...user.data, password: hashedPassword }\<close>: the fields of \<open>data\<close>, with \<open>password\<close>
  set (replaced in place when \<open>data\<close> has it, added at the end otherwise).
\<close>

definition userData :: "runtime \<Rightarrow> seed_user \<Rightarrow> document" where
  "userData rt user =
     AList.update ''password'' (Str (bcrypt_hash rt (password user) 12)) (data user)"

text \<open>The body of the \<^verbatim>\<open>for\<close> loop (source lines 125 to 147) for the \<open>i\<close>-th record.\<close>

definition createTestUsers_body :: "runtime \<Rightarrow> nat \<Rightarrow> seed_user \<Rightarrow> process \<Rightarrow> process" where
  "createTestUsers_body rt i user p =
     (let p1 = sent (Where_get ''users'' ''email'' (Str (email user))) p in
      case faults rt i Check of
        Some err \<Rightarrow> failed_user user err p1
      | None \<Rightarrow>
          if where_eq ''email'' (Str (email user)) (users p1) = [] then
            (let p2 = sent (Hash (password user) 12) p1 in
             case faults rt i Hashing of
               Some err \<Rightarrow> failed_user user err p2
             | None \<Rightarrow>
                 (let p3 = sent (Doc_set ''users'' (uid user) (userData rt user)) p2 in
                  case faults rt i Write_user of
                    Some err \<Rightarrow> failed_user user err p3
                  | None \<Rightarrow>
                      (let p4 = p3\<lparr>users := AList.update (uid user) (userData rt user) (users p3)\<rparr>
                       in if role user = ''merchant'' then
                            (let p5 = sent (Doc_set ''merchants'' (uid user) (userData rt user)) p4
                             in case faults rt i Write_merchant of
                                  Some err \<Rightarrow> failed_user user err p5
                                | None \<Rightarrow>
                                    log Stdout (created_line user)
                                      (p5\<lparr>merchants :=
                                            AList.update (uid user) (userData rt user)
                                              (merchants p5)\<rparr>))
                          else log Stdout (created_line user) p4)))
          else log Stdout (exists_line user) p1)"

fun createTestUsers_loop :: "runtime \<Rightarrow> nat \<Rightarrow> seed_user list \<Rightarrow> process \<Rightarrow> process" where
  "createTestUsers_loop rt i [] p = p"
| "createTestUsers_loop rt i (user # rest) p =
     createTestUsers_loop rt (Suc i) rest (createTestUsers_body rt i user p)"

definition createTestUsers :: "runtime \<Rightarrow> process \<Rightarrow> process" where
  "createTestUsers rt p =
     createTestUsers_loop rt 0 (testUsers (clock rt))
       (log Stdout (busts @ '' Creating test users...'' @ [CHR 0x0A]) p)"

section \<open>The credential report and the main routine\<close>

text \<open>\<^verbatim>\<open>v || d\<close> on a value that is a string or undefined: the empty string is falsy.\<close>

definition or_default :: "string option \<Rightarrow> string \<Rightarrow> string" where
  "or_default v d = (case v of None \<Rightarrow> d | Some s \<Rightarrow> if s = [] then d else s)"

definition credential_lines :: "env_vars \<Rightarrow> string list" where
  "credential_lines penv =
     [CHR 0x0A # lock_key @ '' TEST CREDENTIALS'',
      ''=================='' @ [CHR 0x0A],
      red_circle @ '' ADMIN ACCESS:'',
      ''   Email: admin@eventnft.app'',
      ''   Password: Admin123!'',
      ''   Admin Key: '' @ or_default (penv ''ADMIN_MASTER_KEY'') ''admin123'',
      ''   URL: http://localhost:3000/auth/admin'' @ [CHR 0x0A],
      blue_circle @ '' MERCHANT ACCESS:'',
      ''   Email: merchant@eventnft.app'',
      ''   Password: Merchant123!'',
      ''   URL: http://localhost:3000/auth/merchant'' @ [CHR 0x0A],
      green_circle @ '' USER ACCESS:'',
      ''   Email: user@eventnft.app'',
      ''   Password: User123!'',
      ''   URL: http://localhost:3000/auth/user'' @ [CHR 0x0A],
      memo @ '' NOTES:'',
      ''- All passwords are now securely hashed using bcrypt'',
      ''- JWT tokens are used for session management'',
      ''- HTTP-only cookies provide secure authentication'',
      ''- Use these credentials to test the new authentication system'']"

definition displayCredentials :: "env_vars \<Rightarrow> process \<Rightarrow> process" where
  "displayCredentials penv p =
     p\<lparr>console := console p @ map (Pair Stdout) (credential_lines penv)\<rparr>"

definition closing_lines :: "string list" where
  "closing_lines =
     [CHR 0x0A # check_mark @ '' Test users setup completed successfully!'',
      CHR 0x0A # clipboard @ '' Next steps:'',
      ''1. Start your Next.js development server: npm run dev'',
      ''2. Navigate to the authentication pages using the URLs above'',
      ''3. Test login with the provided credentials'',
      ''4. Verify that users can access their respective dashboards'']"

text \<open>
  \<^verbatim>\<open>main\<close> (source lines 179 to 195). Neither \<open>createTestUsers\<close>, which catches every
  rejection inside its loop, nor \<open>displayCredentials\<close> throws, so the \<^verbatim>\<open>catch\<close> of
  \<^verbatim>\<open>main\<close> is never entered and \<^verbatim>\<open>main\<close> completes normally.
\<close>

definition main :: "runtime \<Rightarrow> env_vars \<Rightarrow> process \<Rightarrow> process" where
  "main rt penv p =
     (let p1 = createTestUsers rt p;
          p2 = displayCredentials penv p1
      in p2\<lparr>console := console p2 @ map (Pair Stdout) closing_lines\<rparr>)"

section \<open>The script\<close>

text \<open>
  Everything outside the script: the settings file, the environment the process starts
  with, the \<^verbatim>\<open>firebase-admin\<close> library, what the run meets, and the content of the
  database. The result is the exit status and the process state at exit: status 1 when
  the bootstrap throws (\<^verbatim>\<open>process.exit(1)\<close>, source line 60), status 0 when the script
  runs to its end. The handle \<open>db\<close> that the bootstrap returns stands for the connection;
  the documents behind it are \<open>database\<close>.
\<close>

record world =
  env_file :: "string option"
  ambient :: env_vars
  admin_sdk :: firebase_admin
  run :: runtime
  database :: firestore

definition banner :: console where
  "banner =
     [(Stdout, busts @ '' NFT Marketplace - Test Users Setup''),
      (Stdout, ''====================================='' @ [CHR 0x0A])]"

definition process_env :: "world \<Rightarrow> env_vars" where
  "process_env w = Object_assign (ambient w) (fst (loadEnvFile (env_file w)))"

definition script :: "world \<Rightarrow> nat \<times> process" where
  "script w =
     (let p0 = \<lparr>users = users (database w), merchants = merchants (database w),
                console = snd (loadEnvFile (env_file w)) @ banner, requests = []\<rparr>
      in case initFirebase (admin_sdk w) (process_env w) of
           Inl err \<Rightarrow>
             (1, log Stderr (cross_mark @ '' Failed to initialize Firebase Admin: '' @ err) p0)
         | Inr db \<Rightarrow>
             (0, main (run w) (process_env w)
                   (log Stdout (check_mark @ '' Firebase Admin initialized successfully'') p0)))"

section \<open>Notions for stating the properties of the seeder\<close>

text \<open>The store with no document.\<close>

definition empty_db :: firestore where
  "empty_db = \<lparr>users = [], merchants = []\<rparr>"

text \<open>A process that starts on a store, with nothing written or requested yet.\<close>

definition fresh :: "'a firestore_scheme \<Rightarrow> process" where
  "fresh d = \<lparr>users = users d, merchants = merchants d, console = [], requests = []\<rparr>"

text \<open>
  The store a run leaves behind, and the store after a sequence of runs of the seeder,
  each with a runtime of its own (its faults, its salts, its clock).
\<close>

definition store_of :: "'a firestore_scheme \<Rightarrow> firestore" where
  "store_of p = \<lparr>users = users p, merchants = merchants p\<rparr>"

fun reruns :: "runtime list \<Rightarrow> firestore \<Rightarrow> firestore" where
  "reruns [] d = d"
| "reruns (rt # rts) d = reruns rts (store_of (createTestUsers rt (fresh d)))"




definition first_fault :: "runtime \<Rightarrow> nat \<Rightarrow> seed_user \<Rightarrow> collection \<Rightarrow> string option" where
  "first_fault rt i u coll =
     (case faults rt i Check of
        Some err \<Rightarrow> Some err
      | None \<Rightarrow>
          if where_eq ''email'' (Str (email u)) coll = [] then
            (case faults rt i Hashing of
               Some err \<Rightarrow> Some err
             | None \<Rightarrow>
                 (case faults rt i Write_user of
                    Some err \<Rightarrow> Some err
                  | None \<Rightarrow> if role u = ''merchant'' then faults rt i Write_merchant else None))
          else None)"

text \<open>
  \<open>is_check\<close> picks the existence checks out of the requests. \<open>has_merchant\<close>: the store
  holds, under the merchant's key, a document with the merchant's email.
\<close>

fun is_check :: "request \<Rightarrow> bool" where
  "is_check (Where_get c f v) = True"
| "is_check (Hash pw n) = False"
| "is_check (Doc_set c k doc) = False"

definition has_merchant :: "'a firestore_scheme \<Rightarrow> bool" where
  "has_merchant d =
     (\<exists>doc. (''merchant-user-001'', doc) \<in> set (users d)
            \<and> map_of doc ''email'' = Some (Str ''merchant@eventnft.app''))"

section \<open>Fixtures for the concrete checks\<close>

text \<open>
  A library that accepts every credential, a run in which nothing rejects, and a hash in
  the format of bcrypt (60 characters, the first seven naming version and cost).
\<close>

definition accepting_sdk :: firebase_admin where
  "accepting_sdk =
     \<lparr>getApps = [], cert = (\<lambda>a. Inr 1), initializeApp = (\<lambda>c. Inr 2),
      getFirestore = (\<lambda>a. Inr 3)\<rparr>"

definition sample_hash :: "string \<Rightarrow> nat \<Rightarrow> string" where
  "sample_hash pw rounds = ''$2a$12$'' @ replicate 53 CHR ''x''"

definition no_faults :: "nat \<Rightarrow> step \<Rightarrow> string option" where
  "no_faults i st = None"

definition calm :: runtime where
  "calm = \<lparr>faults = no_faults, bcrypt_hash = sample_hash, clock = (\<lambda>i. 1700000000000)\<rparr>"

text \<open>
  A library whose \<^verbatim>\<open>cert\<close> rejects the key; a run in which the admin's write to
  \<open>users\<close> rejects; a run in which the merchant's write to \<open>merchants\<close> rejects.
\<close>

definition rejecting_sdk :: firebase_admin where
  "rejecting_sdk =
     \<lparr>getApps = [], cert = (\<lambda>a. Inl ''Failed to parse private key''),
      initializeApp = (\<lambda>c. Inr 2), getFirestore = (\<lambda>a. Inr 3)\<rparr>"

definition admin_write_fails :: runtime where
  "admin_write_fails =
     \<lparr>faults = (\<lambda>i st. if i = 0 \<and> st = Write_user then Some ''unavailable'' else None),
      bcrypt_hash = sample_hash, clock = (\<lambda>i. 1700000000000)\<rparr>"

text \<open>
  A run in which every request rejects, as when the database cannot be reached; a store
  that holds, under a seed key, a document of someone else.
\<close>

definition offline :: runtime where
  "offline =
     \<lparr>faults = (\<lambda>i st. Some ''UNAVAILABLE''), bcrypt_hash = sample_hash,
      clock = (\<lambda>i. 1700000000000)\<rparr>"


definition mirror_fails :: runtime where
  "mirror_fails =
     \<lparr>faults = (\<lambda>i st. if i = 1 \<and> st = Write_merchant then Some ''unavailable'' else None),
      bcrypt_hash = sample_hash, clock = (\<lambda>i. 1700000000000)\<rparr>"

section \<open>Properties of the loader\<close>

lemma split_on_not_Nil: "split_on c s \<noteq> []"
  by (induction s) (auto split: list.splits)

lemma hd_split_on: "hd (split_on c s) = takeWhile (\<lambda>x. x \<noteq> c) s"
  by (induction s) (auto split: list.splits simp: split_on_not_Nil)

lemma split_on_unfold:
  "split_on c s = takeWhile (\<lambda>x. x \<noteq> c) s #
     (case dropWhile (\<lambda>x. x \<noteq> c) s of [] \<Rightarrow> [] | _ # r \<Rightarrow> split_on c r)"
  by (induction s) (auto split: list.splits simp: split_on_not_Nil)

lemma join_with_Cons: "ps \<noteq> [] \<Longrightarrow> join_with c (p # ps) = p @ c # join_with c ps"
  by (cases ps) auto

lemma join_split_on: "join_with c (split_on c s) = s"
proof (induction s)
  case Nil
  show ?case by simp
next
  case (Cons x xs)
  obtain p ps where sp: "split_on c xs = p # ps"
    using split_on_not_Nil [of c xs] by (cases "split_on c xs") auto
  show ?case
  proof (cases "x = c")
    case True
    with Cons sp show ?thesis by simp
  next
    case False
    with Cons sp show ?thesis by (cases ps) auto
  qed
qed

lemma tl_split_on:
  "tl (split_on c s) =
     (case dropWhile (\<lambda>x. x \<noteq> c) s of [] \<Rightarrow> [] | _ # r \<Rightarrow> split_on c r)"
  using split_on_unfold [of c s] by simp

lemma tl_split_on_Nil: "(tl (split_on c s) = []) = (dropWhile (\<lambda>x. x \<noteq> c) s = [])"
proof (cases "dropWhile (\<lambda>x. x \<noteq> c) s")
  case Nil
  then show ?thesis by (simp only: tl_split_on list.case) simp
next
  case (Cons a r)
  then show ?thesis by (simp only: tl_split_on list.case split_on_not_Nil) simp
qed

lemma join_tl_split_on:
  "join_with c (tl (split_on c s)) = tl (dropWhile (\<lambda>x. x \<noteq> c) s)"
proof (cases "dropWhile (\<lambda>x. x \<noteq> c) s")
  case Nil
  then show ?thesis by (simp only: tl_split_on list.case) simp
next
  case (Cons a r)
  then show ?thesis by (simp only: tl_split_on list.case join_split_on) simp
qed

lemma startsWith_takeWhile:
  "takeWhile P s \<noteq> [] \<Longrightarrow> startsWith (takeWhile P s) [h] = startsWith s [h]"
  by (cases s) (auto simp: startsWith_def)

lemma env_line_entry:
  "env_line envVars line =
     (case line_entry line of None \<Rightarrow> envVars | Some (k, v) \<Rightarrow> obj_set envVars k v)"
proof -
  obtain key valueParts where sp: "split_on CHR ''='' line = key # valueParts"
    using split_on_not_Nil [of "CHR ''=''" line] by (cases "split_on CHR ''='' line") auto
  have k: "key = takeWhile (\<lambda>c. c \<noteq> CHR ''='') line"
    using hd_split_on [of "CHR ''=''" line] sp by simp
  have v: "(valueParts = []) = (dropWhile (\<lambda>c. c \<noteq> CHR ''='') line = [])"
    using tl_split_on_Nil [of "CHR ''=''" line] sp by simp
  have j: "join_with CHR ''='' valueParts = tl (dropWhile (\<lambda>c. c \<noteq> CHR ''='') line)"
    using join_tl_split_on [of "CHR ''=''" line] sp by simp
  show ?thesis
    using startsWith_takeWhile [of "\<lambda>c. c \<noteq> CHR ''=''" line "CHR ''#''"]
    by (auto simp: env_line_def line_entry_def sp k v j Let_def)
qed

lemma foldl_obj_set:
  "map_of (foldl (\<lambda>m (k, v). obj_set m k v) m kvs) k =
     (if k = ''__proto__'' then map_of m k
      else case map_of (rev kvs) k of None \<Rightarrow> map_of m k | Some v \<Rightarrow> Some v)"
  by (induction kvs arbitrary: m) (auto simp: obj_set_def update_conv' split: option.splits)

lemma foldl_env_line:
  "foldl env_line m ls = foldl (\<lambda>m (k, v). obj_set m k v) m (List.map_filter line_entry ls)"
  by (induction ls arbitrary: m) (auto simp: env_line_entry split: option.splits)


text \<open>
  C5 (as amended). The mapping the loader returns for a file: a line contributes an entry
  exactly when it contains \<open>=\<close>, the text before its first \<open>=\<close> is not empty, the line does
  not begin with \<open>#\<close>, and the text after its first \<open>=\<close> is not empty once trimmed. The
  entry maps the trimmed text before the first \<open>=\<close> to the trimmed text after it (which
  may contain further \<open>=\<close>); of two entries for one name the later line wins, and the name
  \<open>__proto__\<close> is never stored.
\<close>

theorem loadEnvFile_entries:
  "map_of (fst (loadEnvFile (Some content))) name =
     (if name = ''__proto__'' then None
      else map_of (rev (List.map_filter line_entry (split_on CHR 0x0A content))) name)"
  by (simp add: loadEnvFile_def foldl_env_line foldl_obj_set split: option.splits)

theorem loadEnvFile_entries_witness:
  "map_of (fst (loadEnvFile (Some (''# c=d'' @ [CHR 0x0A] @ ''A=1'' @ [CHR 0x0A] @ '' B = x=y ''
         @ [CHR 0x0A] @ ''C='' @ [CHR 0x0A] @ ''A=2'')))) '' B'' = None
   \<and> map_of (fst (loadEnvFile (Some (''# c=d'' @ [CHR 0x0A] @ ''A=1'' @ [CHR 0x0A] @ '' B = x=y ''
         @ [CHR 0x0A] @ ''C='' @ [CHR 0x0A] @ ''A=2'')))) ''B'' = Some ''x=y''"
  using loadEnvFile_entries [of "''# c=d'' @ [CHR 0x0A] @ ''A=1'' @ [CHR 0x0A] @ '' B = x=y ''
         @ [CHR 0x0A] @ ''C='' @ [CHR 0x0A] @ ''A=2''" "'' B''"]
        loadEnvFile_entries [of "''# c=d'' @ [CHR 0x0A] @ ''A=1'' @ [CHR 0x0A] @ '' B = x=y ''
         @ [CHR 0x0A] @ ''C='' @ [CHR 0x0A] @ ''A=2''" "''B''"]
  by (simp add: line_entry_def List.map_filter_simps trim_def startsWith_def ws1_def ws2_def
        ws3_def)

text \<open>
  C5, the claim as stated, fails: the line \<open>KEY=\<close> does not begin with \<open>#\<close> and contains
  the separator, and the loader still drops it (its value is empty).
\<close>

theorem loadEnvFile_empty_value_counterexample:
  "\<not> startsWith ''KEY='' ''#'' \<and> CHR ''='' \<in> set ''KEY=''
   \<and> fst (loadEnvFile (Some ''KEY='')) = []"
  by (simp add: loadEnvFile_def env_line_def trim_def startsWith_def)

lemmas loader_eval = loadEnvFile_def env_line_def trim_def obj_set_def startsWith_def
  ws1_def ws2_def ws3_def

lemmas merge_eval = Object_assign_def own_keys_def is_array_index_def is_digit_def
  env_set_def cstr_def env_writes_def

lemma set_own_keys: "set (own_keys obj) = fst ` set obj"
  by (auto simp: own_keys_def)

lemma foldl_env_set:
  "foldl (\<lambda>env k. case map_of obj k of None \<Rightarrow> env | Some v \<Rightarrow> env_set env k v) env ks name =
     (case map_of (rev (List.map_filter
             (\<lambda>k. case map_of obj k of
                     None \<Rightarrow> None
                   | Some v \<Rightarrow>
                       if cstr k = [] \<or> CHR ''='' \<in> set (cstr k) then None
                       else Some (cstr k, cstr v)) ks)) name of
        Some v \<Rightarrow> Some v
      | None \<Rightarrow> env name)"
  by (induction ks arbitrary: env)
     (auto simp: env_set_def List.map_filter_simps split: option.splits)

lemma in_map_filter:
  "(y \<in> set (List.map_filter f xs)) = (\<exists>x \<in> set xs. f x = Some y)"
  by (induction xs) (auto split: option.splits)

lemma Object_assign_writes:
  "Object_assign env0 obj name =
     (case map_of (rev (env_writes obj)) name of Some v \<Rightarrow> Some v | None \<Rightarrow> env0 name)"
  unfolding Object_assign_def env_writes_def by (rule foldl_env_set)

lemma env_writes_names:
  assumes "(n, w) \<in> set (env_writes obj)"
  shows "\<exists>k v. (k, v) \<in> set obj \<and> map_of obj k = Some v \<and> n = cstr k \<and> w = cstr v
           \<and> n \<noteq> [] \<and> CHR ''='' \<notin> set n"
proof -
  from assms obtain k where k: "k \<in> set (own_keys obj)"
    and f: "(case map_of obj k of
               None \<Rightarrow> None
             | Some v \<Rightarrow>
                 if cstr k = [] \<or> CHR ''='' \<in> set (cstr k) then None
                 else Some (cstr k, cstr v)) = Some (n, w)"
    unfolding env_writes_def in_map_filter by blast
  from f obtain v where v: "map_of obj k = Some v" by (cases "map_of obj k") auto
  with f have "n = cstr k \<and> w = cstr v \<and> cstr k \<noteq> [] \<and> CHR ''='' \<notin> set (cstr k)"
    by (simp split: if_splits)
  moreover from v have "(k, v) \<in> set obj" by (rule map_of_SomeD)
  ultimately show ?thesis using v by blast
qed

lemma env_writes_has:
  assumes v: "map_of obj k = Some v" and n: "cstr k \<noteq> []" "CHR ''='' \<notin> set (cstr k)"
  shows "(cstr k, cstr v) \<in> set (env_writes obj)"
proof -
  from v have "(k, v) \<in> set obj" by (rule map_of_SomeD)
  then have "k \<in> set (own_keys obj)" unfolding set_own_keys by force
  moreover have "(case map_of obj k of
               None \<Rightarrow> None
             | Some v \<Rightarrow>
                 if cstr k = [] \<or> CHR ''='' \<in> set (cstr k) then None
                 else Some (cstr k, cstr v)) = Some (cstr k, cstr v)"
    using v n by simp
  ultimately show ?thesis unfolding env_writes_def in_map_filter by blast
qed

lemma cstr_id: "CHR 0x00 \<notin> set s \<Longrightarrow> cstr s = s"
  by (auto simp: cstr_def takeWhile_eq_all_conv)

lemma Object_assign_frame:
  assumes "\<forall>k \<in> fst ` set obj. cstr k \<noteq> name"
  shows "Object_assign env0 obj name = env0 name"
proof -
  have "name \<notin> fst ` set (rev (env_writes obj))"
    using assms env_writes_names [of name _ obj] by force
  then have "map_of (rev (env_writes obj)) name = None"
    by (simp add: map_of_eq_None_iff)
  then show ?thesis by (simp add: Object_assign_writes)
qed

lemma Object_assign_refused:
  assumes "name = [] \<or> CHR ''='' \<in> set name"
  shows "Object_assign env0 obj name = env0 name"
proof -
  have "name \<notin> fst ` set (rev (env_writes obj))"
    using assms env_writes_names [of name _ obj] by force
  then have "map_of (rev (env_writes obj)) name = None"
    by (simp add: map_of_eq_None_iff)
  then show ?thesis by (simp add: Object_assign_writes)
qed

lemma Object_assign_overwrite:
  assumes v: "map_of obj name = Some v"
    and n: "name \<noteq> []" "CHR ''='' \<notin> set name" "CHR 0x00 \<notin> set name"
    and u: "\<forall>k \<in> fst ` set obj. cstr k = name \<longrightarrow> k = name"
  shows "Object_assign env0 obj name = Some (cstr v)"
proof -
  have c: "cstr name = name" using n(3) by (rule cstr_id)
  have "(name, cstr v) \<in> set (env_writes obj)"
    using env_writes_has [OF v] n c by simp
  then have "name \<in> fst ` set (rev (env_writes obj))" by force
  then have "map_of (rev (env_writes obj)) name \<noteq> None"
    by (simp only: map_of_eq_None_iff not_not)
  then obtain w where w: "map_of (rev (env_writes obj)) name = Some w"
    by blast
  then have "(name, w) \<in> set (env_writes obj)"
    by (auto dest: map_of_SomeD)
  from env_writes_names [OF this] u v have "w = cstr v" by force
  with w show ?thesis by (simp add: Object_assign_writes)
qed

lemma set_trimStart: "set (trimStart s) \<subseteq> set s"
  by (induction s rule: trimStart.induct) (auto split: if_splits)

lemma set_trimEnd_rev: "set (trimEnd_rev s) \<subseteq> set s"
  by (induction s rule: trimEnd_rev.induct) (auto split: if_splits)

lemma set_trim: "set (trim s) \<subseteq> set s"
  using set_trimStart [of s] set_trimEnd_rev [of "rev (trimStart s)"]
  by (auto simp: trim_def)

lemma set_split_on_all: "\<forall>p \<in> set (split_on c s). set p \<subseteq> set s"
proof (induction s)
  case Nil
  show ?case by simp
next
  case (Cons x xs)
  show ?case
  proof (cases "x = c")
    case True
    with Cons show ?thesis by auto
  next
    case False
    obtain q qs where sp: "split_on c xs = q # qs"
      using split_on_not_Nil [of c xs] by (cases "split_on c xs") auto
    with Cons have "set q \<subseteq> set xs" and "\<forall>p \<in> set qs. set p \<subseteq> set xs" by simp_all
    with False sp show ?thesis by auto
  qed
qed

lemma set_split_on: "p \<in> set (split_on c s) \<Longrightarrow> set p \<subseteq> set s"
  using set_split_on_all [of c s] by blast

lemma set_tl: "set (tl xs) \<subseteq> set xs"
  by (cases xs) auto

lemma line_entry_chars:
  assumes "line_entry line = Some (k, v)"
  shows "set k \<subseteq> set line - {CHR ''=''}" and "set v \<subseteq> set line"
proof -
  from assms have k: "k = trim (takeWhile (\<lambda>c. c \<noteq> CHR ''='') line)"
    and v: "v = trim (tl (dropWhile (\<lambda>c. c \<noteq> CHR ''='') line))"
    by (auto simp: line_entry_def Let_def split: if_splits)
  have "set (takeWhile (\<lambda>c. c \<noteq> CHR ''='') line) \<subseteq> set line - {CHR ''=''}"
    by (auto dest: set_takeWhileD)
  with set_trim [of "takeWhile (\<lambda>c. c \<noteq> CHR ''='') line"]
  show "set k \<subseteq> set line - {CHR ''=''}" unfolding k by blast
  have "set (tl (dropWhile (\<lambda>c. c \<noteq> CHR ''='') line)) \<subseteq> set line"
    using set_tl [of "dropWhile (\<lambda>c. c \<noteq> CHR ''='') line"] by (auto dest: set_dropWhileD)
  with set_trim [of "tl (dropWhile (\<lambda>c. c \<noteq> CHR ''='') line)"]
  show "set v \<subseteq> set line" unfolding v by blast
qed

lemma update_entries: "set (AList.update k v al) \<subseteq> insert (k, v) (set al)"
  by (induction al) auto

lemma env_line_chars:
  assumes "\<forall>(k, v) \<in> set obj. set k \<subseteq> A - {CHR ''=''} \<and> set v \<subseteq> A" and "set line \<subseteq> A"
  shows "\<forall>(k, v) \<in> set (env_line obj line). set k \<subseteq> A - {CHR ''=''} \<and> set v \<subseteq> A"
proof (cases "line_entry line")
  case None
  with assms show ?thesis by (simp add: env_line_entry)
next
  case (Some e)
  obtain k v where e: "e = (k, v)" by (cases e)
  from line_entry_chars [of line k v] Some e assms(2)
  have new: "set k \<subseteq> A - {CHR ''=''} \<and> set v \<subseteq> A" by blast
  have "set a \<subseteq> A - {CHR ''=''} \<and> set b \<subseteq> A" if "(a, b) \<in> set (obj_set obj k v)" for a b
  proof -
    from that update_entries [of k v obj] have "(a, b) = (k, v) \<or> (a, b) \<in> set obj"
      by (auto simp: obj_set_def split: if_splits)
    then show ?thesis
    proof
      assume "(a, b) = (k, v)"
      with new show ?thesis by simp
    next
      assume "(a, b) \<in> set obj"
      with assms(1) show ?thesis by blast
    qed
  qed
  then show ?thesis unfolding env_line_entry Some e by auto
qed

lemma foldl_env_line_chars:
  assumes "\<forall>(k, v) \<in> set obj. set k \<subseteq> A - {CHR ''=''} \<and> set v \<subseteq> A"
    and "\<forall>line \<in> set ls. set line \<subseteq> A"
  shows "\<forall>(k, v) \<in> set (foldl env_line obj ls). set k \<subseteq> A - {CHR ''=''} \<and> set v \<subseteq> A"
  using assms
proof (induction ls arbitrary: obj)
  case Nil
  then show ?case by simp
next
  case (Cons l ls)
  have "\<forall>(k, v) \<in> set (env_line obj l). set k \<subseteq> A - {CHR ''=''} \<and> set v \<subseteq> A"
    using env_line_chars [OF Cons.prems(1), of l] Cons.prems(2) by simp
  from Cons.IH [OF this] Cons.prems(2) show ?case by simp
qed

lemma loadEnvFile_chars:
  assumes "(k, v) \<in> set (fst (loadEnvFile (Some content)))"
  shows "set k \<subseteq> set content - {CHR ''=''}" and "set v \<subseteq> set content"
proof -
  have "\<forall>(k, v) \<in> set (foldl env_line [] (split_on CHR 0x0A content)).
          set k \<subseteq> set content - {CHR ''=''} \<and> set v \<subseteq> set content"
    by (rule foldl_env_line_chars) (auto dest: set_split_on)
  with assms show "set k \<subseteq> set content - {CHR ''=''}" and "set v \<subseteq> set content"
    by (auto simp: loadEnvFile_def)
qed

lemma merge_plain:
  assumes nul: "CHR 0x00 \<notin> set content"
  shows "Object_assign env0 (fst (loadEnvFile (Some content))) name =
           (if name = [] then env0 name
            else case map_of (fst (loadEnvFile (Some content))) name of
                   Some v \<Rightarrow> Some v
                 | None \<Rightarrow> env0 name)"
proof -
  let ?obj = "fst (loadEnvFile (Some content))"
  have ck: "cstr k = k" and ne: "CHR ''='' \<notin> set k" and nk: "CHR 0x00 \<notin> set k"
    if "k \<in> fst ` set ?obj" for k
  proof -
    from that obtain v where "(k, v) \<in> set ?obj" by force
    from loadEnvFile_chars(1) [OF this] nul
    show "CHR ''='' \<notin> set k" and nk: "CHR 0x00 \<notin> set k" by auto
    then show "cstr k = k" by (simp add: cstr_id)
  qed
  show ?thesis
  proof (cases "name = []")
    case True
    then show ?thesis by (simp add: Object_assign_refused)
  next
    case False
    show ?thesis
    proof (cases "map_of ?obj name")
      case None
      then have "name \<notin> fst ` set ?obj" by (simp add: map_of_eq_None_iff)
      then have "\<forall>k \<in> fst ` set ?obj. cstr k \<noteq> name" using ck by metis
      from Object_assign_frame [OF this] None False show ?thesis by simp
    next
      case (Some v)
      then have in_obj: "(name, v) \<in> set ?obj" by (rule map_of_SomeD)
      then have key: "name \<in> fst ` set ?obj" by force
      have "CHR 0x00 \<notin> set v" using loadEnvFile_chars(2) [OF in_obj] nul by auto
      then have cv: "cstr v = v" by (rule cstr_id)
      have u: "\<forall>k \<in> fst ` set ?obj. cstr k = name \<longrightarrow> k = name" using ck by metis
      from Object_assign_overwrite [OF Some False ne [OF key] nk [OF key] u] cv Some False
      show ?thesis by simp
    qed
  qed
qed

text \<open>
  C6 (as amended). The merge assigns the properties of the loader's object to the process
  environment one by one, in the object's property order, name and value each cut at its
  first NUL character; an assignment whose name is then empty (or contains \<open>=\<close>) is
  ignored. So a name takes the value last assigned to it, replacing what the environment
  held, and a name that no property is assigned to, the empty name among them, keeps what
  the environment held. For a settings file with no NUL character this is: every
  non-empty name the file defines has the file's value after the merge, whatever the
  environment held for it before, and every other name keeps the value the environment
  had.
\<close>

theorem Object_assign_loadEnvFile:
  "Object_assign env0 (fst (loadEnvFile file)) name =
     (case map_of (rev (env_writes (fst (loadEnvFile file)))) name of
        Some v \<Rightarrow> Some v
      | None \<Rightarrow> env0 name)
   \<and> ((\<forall>k \<in> fst ` set (fst (loadEnvFile file)). cstr k \<noteq> name) \<longrightarrow>
         Object_assign env0 (fst (loadEnvFile file)) name = env0 name)
   \<and> (name = [] \<or> CHR ''='' \<in> set name \<longrightarrow>
         Object_assign env0 (fst (loadEnvFile file)) name = env0 name)
   \<and> (\<forall>content. file = Some content \<and> CHR 0x00 \<notin> set content \<longrightarrow>
         Object_assign env0 (fst (loadEnvFile file)) name =
           (if name = [] then env0 name
            else case map_of (fst (loadEnvFile file)) name of
                   Some v \<Rightarrow> Some v
                 | None \<Rightarrow> env0 name))"
proof (intro conjI allI impI)
  show "Object_assign env0 (fst (loadEnvFile file)) name =
     (case map_of (rev (env_writes (fst (loadEnvFile file)))) name of
        Some v \<Rightarrow> Some v
      | None \<Rightarrow> env0 name)"
    by (rule Object_assign_writes)
next
  assume "\<forall>k \<in> fst ` set (fst (loadEnvFile file)). cstr k \<noteq> name"
  then show "Object_assign env0 (fst (loadEnvFile file)) name = env0 name"
    by (rule Object_assign_frame)
next
  assume "name = [] \<or> CHR ''='' \<in> set name"
  then show "Object_assign env0 (fst (loadEnvFile file)) name = env0 name"
    by (rule Object_assign_refused)
next
  fix content
  assume "file = Some content \<and> CHR 0x00 \<notin> set content"
  then show "Object_assign env0 (fst (loadEnvFile file)) name =
           (if name = [] then env0 name
            else case map_of (fst (loadEnvFile file)) name of
                   Some v \<Rightarrow> Some v
                 | None \<Rightarrow> env0 name)"
    using merge_plain [of content env0 name] by simp
qed

theorem Object_assign_loadEnvFile_witness:
  "Object_assign [''A'' \<mapsto> ''1'', ''B'' \<mapsto> ''0''] (fst (loadEnvFile (Some ''A=2''))) ''B''
     = Some ''0''
   \<and> Object_assign [''A'' \<mapsto> ''1'', ''B'' \<mapsto> ''0''] (fst (loadEnvFile (Some ''A=2''))) ''A''
     = Some ''2''
   \<and> Object_assign Map.empty (fst (loadEnvFile (Some '' =v''))) [] = None
   \<and> Object_assign Map.empty (fst (loadEnvFile (Some (''A=x'' @ [CHR 0x00] @ ''y'')))) ''A''
     = Some ''x''
   \<and> Object_assign Map.empty
         (fst (loadEnvFile (Some (''A=2'' @ [CHR 0x0A] @ ''A'' @ [CHR 0x00] @ ''x=1'')))) ''A''
     = Some ''1''"
proof -
  let ?env = "[''A'' \<mapsto> ''1'', ''B'' \<mapsto> ''0'']"
  have o: "fst (loadEnvFile (Some ''A=2'')) = [(''A'', ''2'')]"
    by (simp add: loader_eval)
  have n: "CHR 0x00 \<notin> set ''A=2''" by simp
  have z: "fst (loadEnvFile (Some (''A=x'' @ [CHR 0x00] @ ''y''))) = [(''A'', ''x'' @ [CHR 0x00] @ ''y'')]"
    by (simp add: loader_eval)
  have w: "env_writes [(''A'', ''x'' @ [CHR 0x00] @ ''y'')] = [(''A'', ''x'')]"
    by (simp add: merge_eval)
  from Object_assign_loadEnvFile [of ?env "Some ''A=2''" "''B''"] n
  have "Object_assign ?env (fst (loadEnvFile (Some ''A=2''))) ''B'' =
           (if ''B'' = [] then ?env ''B''
            else case map_of (fst (loadEnvFile (Some ''A=2''))) ''B'' of
                   Some v \<Rightarrow> Some v
                 | None \<Rightarrow> ?env ''B'')"
    by blast
  then have a: "Object_assign ?env (fst (loadEnvFile (Some ''A=2''))) ''B'' = Some ''0''"
    unfolding o by simp
  from Object_assign_loadEnvFile [of ?env "Some ''A=2''" "''A''"] n
  have "Object_assign ?env (fst (loadEnvFile (Some ''A=2''))) ''A'' =
           (if ''A'' = [] then ?env ''A''
            else case map_of (fst (loadEnvFile (Some ''A=2''))) ''A'' of
                   Some v \<Rightarrow> Some v
                 | None \<Rightarrow> ?env ''A'')"
    by blast
  then have b: "Object_assign ?env (fst (loadEnvFile (Some ''A=2''))) ''A'' = Some ''2''"
    unfolding o by simp
  from Object_assign_loadEnvFile [of Map.empty "Some '' =v''" "[]"]
  have c: "Object_assign Map.empty (fst (loadEnvFile (Some '' =v''))) [] = None"
    by blast
  from Object_assign_loadEnvFile [of Map.empty "Some (''A=x'' @ [CHR 0x00] @ ''y'')" "''A''"]
  have "Object_assign Map.empty (fst (loadEnvFile (Some (''A=x'' @ [CHR 0x00] @ ''y'')))) ''A'' =
     (case map_of (rev (env_writes (fst (loadEnvFile (Some (''A=x'' @ [CHR 0x00] @ ''y''))))))
             ''A'' of
        Some v \<Rightarrow> Some v
      | None \<Rightarrow> Map.empty ''A'')"
    by (rule conjunct1)
  then have d: "Object_assign Map.empty (fst (loadEnvFile (Some (''A=x'' @ [CHR 0x00] @ ''y'')))) ''A''
     = Some ''x''"
    unfolding z w by simp
  have y: "fst (loadEnvFile (Some (''A=2'' @ [CHR 0x0A] @ ''A'' @ [CHR 0x00] @ ''x=1'')))
             = [(''A'', ''2''), (''A'' @ [CHR 0x00] @ ''x'', ''1'')]"
    by (simp add: loader_eval)
  have x: "env_writes [(''A'', ''2''), (''A'' @ [CHR 0x00] @ ''x'', ''1'')]
             = [(''A'', ''2''), (''A'', ''1'')]"
    by (simp add: merge_eval)
  from Object_assign_loadEnvFile [of Map.empty
      "Some (''A=2'' @ [CHR 0x0A] @ ''A'' @ [CHR 0x00] @ ''x=1'')" "''A''"]
  have "Object_assign Map.empty
          (fst (loadEnvFile (Some (''A=2'' @ [CHR 0x0A] @ ''A'' @ [CHR 0x00] @ ''x=1'')))) ''A'' =
     (case map_of (rev (env_writes
             (fst (loadEnvFile (Some (''A=2'' @ [CHR 0x0A] @ ''A'' @ [CHR 0x00] @ ''x=1''))))))
             ''A'' of
        Some v \<Rightarrow> Some v
      | None \<Rightarrow> Map.empty ''A'')"
    by (rule conjunct1)
  then have g: "Object_assign Map.empty
          (fst (loadEnvFile (Some (''A=2'' @ [CHR 0x0A] @ ''A'' @ [CHR 0x00] @ ''x=1'')))) ''A''
     = Some ''1''"
    unfolding y x by simp
  from a b c d g show ?thesis by blast
qed

text \<open>
  C6, the claim as stated, fails: the environment holds \<open>A=1\<close>, the settings file says
  \<open>A=2\<close>, and after the merge \<open>A\<close> is \<open>2\<close>.
\<close>

theorem Object_assign_overwrites_counterexample:
  "[''A'' \<mapsto> ''1''] ''A'' = Some ''1''
   \<and> Object_assign [''A'' \<mapsto> ''1''] (fst (loadEnvFile (Some ''A=2''))) ''A'' = Some ''2''"
  by (simp add: loader_eval merge_eval)

text \<open>
  C7. When the settings file does not exist the loader returns the empty mapping and one
  diagnostic line; the process environment is then the ambient one, and it alone decides
  whether the bootstrap succeeds (exit status 0) or fails (exit status 1).
\<close>

theorem missing_env_file:
  "loadEnvFile None = ([], [(Stderr, cross_mark @ '' .env file not found'')])
   \<and> process_env (w\<lparr>env_file := None\<rparr>) = ambient w
   \<and> fst (script (w\<lparr>env_file := None\<rparr>)) =
       (case initFirebase (admin_sdk w) (ambient w) of Inl err \<Rightarrow> 1 | Inr db \<Rightarrow> 0)"
  by (simp add: loadEnvFile_def process_env_def Object_assign_def own_keys_def script_def
        Let_def split: sum.splits)

theorem missing_env_file_witness:
  "fst (script \<lparr>env_file = None, ambient = Map.empty, admin_sdk = accepting_sdk,
                 run = calm, database = empty_db\<rparr>) = 1
   \<and> fst (script \<lparr>env_file = None, ambient = [''FIREBASE_PRIVATE_KEY'' \<mapsto> ''k''],
                 admin_sdk = accepting_sdk, run = calm, database = empty_db\<rparr>) = 0"
  using missing_env_file [of "\<lparr>env_file = None, ambient = Map.empty, admin_sdk = accepting_sdk,
                 run = calm, database = empty_db\<rparr>"]
        missing_env_file [of "\<lparr>env_file = None, ambient = [''FIREBASE_PRIVATE_KEY'' \<mapsto> ''k''],
                 admin_sdk = accepting_sdk, run = calm, database = empty_db\<rparr>"]
  by (simp add: initFirebase_def accepting_sdk_def)

section \<open>Properties of the seeder\<close>

lemmas body_defs = createTestUsers_body_def Let_def sent_def log_def failed_user_def

lemma users_body:
  "users (createTestUsers_body rt i u p) =
     (if faults rt i Check = None \<and> where_eq ''email'' (Str (email u)) (users p) = []
         \<and> faults rt i Hashing = None \<and> faults rt i Write_user = None
      then AList.update (uid u) (userData rt u) (users p) else users p)"
  by (simp add: body_defs split: option.splits)

lemma merchants_body:
  "merchants (createTestUsers_body rt i u p) =
     (if faults rt i Check = None \<and> where_eq ''email'' (Str (email u)) (users p) = []
         \<and> faults rt i Hashing = None \<and> faults rt i Write_user = None
         \<and> role u = ''merchant'' \<and> faults rt i Write_merchant = None
      then AList.update (uid u) (userData rt u) (merchants p) else merchants p)"
  by (simp add: body_defs split: option.splits)

lemma requests_body:
  "requests (createTestUsers_body rt i u p) =
     requests p @ Where_get ''users'' ''email'' (Str (email u)) #
       (if faults rt i Check = None \<and> where_eq ''email'' (Str (email u)) (users p) = []
        then Hash (password u) 12 #
          (if faults rt i Hashing = None
           then Doc_set ''users'' (uid u) (userData rt u) #
             (if faults rt i Write_user = None \<and> role u = ''merchant''
              then [Doc_set ''merchants'' (uid u) (userData rt u)] else [])
           else [])
        else [])"
  by (simp add: body_defs split: option.splits)

lemma update_other:
  "k \<noteq> k' \<Longrightarrow> ((k', v') \<in> set (AList.update k v al)) = ((k', v') \<in> set al)"
  by (induction al) auto


lemma update_self: "(k, v) \<in> set (AList.update k v al)"
  by (induction al) auto

lemma where_eq_update:
  "length (where_eq f x (AList.update k d al))
     \<le> length (where_eq f x al) + (if map_of d f = Some x then 1 else 0)"
  by (induction al) (auto simp: where_eq_def)

lemma where_eq_Nil: "(where_eq f x al = []) = (\<forall>(k, d) \<in> set al. map_of d f \<noteq> Some x)"
  by (auto simp: where_eq_def filter_empty_conv)




lemma users_log [simp]: "users (log st l p) = users p"
  and merchants_log [simp]: "merchants (log st l p) = merchants p"
  and requests_log [simp]: "requests (log st l p) = requests p"
  by (simp_all add: log_def)

lemma users_fresh [simp]: "users (fresh d) = users d"
  and merchants_fresh [simp]: "merchants (fresh d) = merchants d"
  and requests_fresh [simp]: "requests (fresh d) = []"
  and console_fresh [simp]: "console (fresh d) = []"
  by (simp_all add: fresh_def)













lemma console_body:
  "console (createTestUsers_body rt i u p) =
     console p @
       [case first_fault rt i u (users p) of
          Some err \<Rightarrow> (Stderr, cross_mark @ '' Failed to create user '' @ email u @ '': '' @ err)
        | None \<Rightarrow>
            (Stdout, if where_eq ''email'' (Str (email u)) (users p) = [] then created_line u
                     else exists_line u)]"
  by (simp add: body_defs first_fault_def split: option.splits)









lemma seed_fields:
  "length (testUsers c) = 3"
  "map uid (testUsers c) = [''admin-user-001'', ''merchant-user-001'', ''regular-user-001'']"
  "map email (testUsers c) = [''admin@eventnft.app'', ''merchant@eventnft.app'', ''user@eventnft.app'']"
  "map role (testUsers c) = [''admin'', ''merchant'', ''user'']"
  "map password (testUsers c) = [''Admin123!'', ''Merchant123!'', ''User123!'']"
  by (simp_all add: testUsers_def)

lemma seed_password:
  "u \<in> set (testUsers c) \<Longrightarrow>
     map_of (userData rt u) ''password'' = Some (Str (bcrypt_hash rt (password u) 12))
     \<and> length (password u) < 60
     \<and> (\<forall>f v. (f, v) \<in> set (userData rt u) \<longrightarrow> v = Str (bcrypt_hash rt (password u) 12) \<or> v \<noteq> Str (password u))"
  by (auto simp: testUsers_def userData_def)

lemma requests_mono_body: "set (requests p) \<subseteq> set (requests (createTestUsers_body rt i u p))"
  by (auto simp: requests_body)

lemma requests_mono_loop: "set (requests p) \<subseteq> set (requests (createTestUsers_loop rt i us p))"
proof (induction us arbitrary: i p)
  case Nil
  show ?case by simp
next
  case (Cons u us)
  show ?case using requests_mono_body [of p rt i u] Cons [of "createTestUsers_body rt i u p" "Suc i"]
    by simp
qed

lemma doc_requests_body:
  assumes "Doc_set c k doc \<in> set (requests (createTestUsers_body rt i u p))"
  shows "Doc_set c k doc \<in> set (requests p)
         \<or> (k = uid u \<and> doc = userData rt u
             \<and> Doc_set ''users'' k doc \<in> set (requests (createTestUsers_body rt i u p))
             \<and> (c = ''users'' \<or> c = ''merchants'' \<and> role u = ''merchant''))"
  using assms by (auto simp: requests_body split: if_splits)

lemma doc_requests_loop:
  assumes "Doc_set c k doc \<in> set (requests (createTestUsers_loop rt i us p))"
  shows "Doc_set c k doc \<in> set (requests p)
         \<or> (\<exists>u \<in> set us. k = uid u \<and> doc = userData rt u
             \<and> Doc_set ''users'' k doc \<in> set (requests (createTestUsers_loop rt i us p))
             \<and> (c = ''users'' \<or> c = ''merchants'' \<and> role u = ''merchant''))"
  using assms
proof (induction us arbitrary: i p)
  case Nil
  then show ?case by simp
next
  case (Cons u us)
  let ?q = "createTestUsers_body rt i u p"
  from Cons.IH [of "Suc i" ?q] Cons.prems
  consider (old) "Doc_set c k doc \<in> set (requests ?q)"
    | (new) "\<exists>u \<in> set us. k = uid u \<and> doc = userData rt u
             \<and> Doc_set ''users'' k doc \<in> set (requests (createTestUsers_loop rt (Suc i) us ?q))
             \<and> (c = ''users'' \<or> c = ''merchants'' \<and> role u = ''merchant'')"
    by auto
  then show ?case
  proof cases
    case old
    from doc_requests_body [OF old] requests_mono_loop [of ?q rt "Suc i" us]
    show ?thesis by auto
  next
    case new
    then show ?thesis by auto
  qed
qed

lemma entries_body:
  "set (users (createTestUsers_body rt i u p)) \<subseteq> insert (uid u, userData rt u) (set (users p))"
  "set (merchants (createTestUsers_body rt i u p)) \<subseteq> insert (uid u, userData rt u) (set (merchants p))"
  using update_entries [of "uid u" "userData rt u" "users p"]
    update_entries [of "uid u" "userData rt u" "merchants p"]
  by (auto simp: users_body merchants_body)

lemma entries_loop:
  "set (users (createTestUsers_loop rt i us p)) \<subseteq> (\<lambda>u. (uid u, userData rt u)) ` set us \<union> set (users p)"
  "set (merchants (createTestUsers_loop rt i us p)) \<subseteq> (\<lambda>u. (uid u, userData rt u)) ` set us \<union> set (merchants p)"
proof (induction us arbitrary: i p)
  case Nil
  { case 1 show ?case by simp }
  { case 2 show ?case by simp }
next
  case (Cons u us)
  { case 1
    show ?case using Cons(1) [of "Suc i" "createTestUsers_body rt i u p"] entries_body(1) [of rt i u p]
      by auto }
  { case 2
    show ?case using Cons(2) [of "Suc i" "createTestUsers_body rt i u p"] entries_body(2) [of rt i u p]
      by auto }
qed

lemma run_unfold:
  "createTestUsers rt p =
     createTestUsers_body rt (Suc (Suc 0)) (testUsers (clock rt) ! 2)
       (createTestUsers_body rt (Suc 0) (testUsers (clock rt) ! Suc 0)
          (createTestUsers_body rt 0 (testUsers (clock rt) ! 0)
             (log Stdout (busts @ '' Creating test users...'' @ [CHR 0x0A]) p)))"
  by (simp add: createTestUsers_def testUsers_def)

lemma seed_nth:
  "uid (testUsers c ! 0) = ''admin-user-001''"
  "uid (testUsers c ! Suc 0) = ''merchant-user-001''"
  "uid (testUsers c ! 2) = ''regular-user-001''"
  "email (testUsers c ! 0) = ''admin@eventnft.app''"
  "email (testUsers c ! Suc 0) = ''merchant@eventnft.app''"
  "email (testUsers c ! 2) = ''user@eventnft.app''"
  "role (testUsers c ! 0) = ''admin''"
  "role (testUsers c ! Suc 0) = ''merchant''"
  "role (testUsers c ! 2) = ''user''"
  by (simp_all add: testUsers_def)

lemma only_merchant:
  assumes "u \<in> set (testUsers c)" and "role u = ''merchant''"
  shows "u = testUsers c ! 1"
proof -
  from assms(1) obtain i where i: "i < 3" "u = testUsers c ! i"
    by (auto simp: in_set_conv_nth seed_fields(1))
  from i(1) have "i = 0 \<or> i = Suc 0 \<or> i = 2" by arith
  with i(2) assms(2) show ?thesis by (auto simp: seed_nth)
qed

lemma map_of_update: "map_of (AList.update k v al) k' = (if k' = k then Some v else map_of al k')"
  by (simp add: update_conv')

lemma doc_request_other:
  "k \<noteq> uid u \<Longrightarrow>
     (Doc_set c k doc \<in> set (requests (createTestUsers_body rt i u p)))
       = (Doc_set c k doc \<in> set (requests p))"
  by (auto simp: requests_body)

lemma doc_request_users:
  "(Doc_set ''users'' (uid u) doc \<in> set (requests (createTestUsers_body rt i u p)))
     = (Doc_set ''users'' (uid u) doc \<in> set (requests p)
        \<or> doc = userData rt u \<and> faults rt i Check = None
          \<and> where_eq ''email'' (Str (email u)) (users p) = [] \<and> faults rt i Hashing = None)"
  by (auto simp: requests_body)

lemma doc_request_merchants:
  "(Doc_set ''merchants'' (uid u) doc \<in> set (requests (createTestUsers_body rt i u p)))
     = (Doc_set ''merchants'' (uid u) doc \<in> set (requests p)
        \<or> doc = userData rt u \<and> faults rt i Check = None
          \<and> where_eq ''email'' (Str (email u)) (users p) = [] \<and> faults rt i Hashing = None
          \<and> faults rt i Write_user = None \<and> role u = ''merchant'')"
  by (auto simp: requests_body)

lemma merchant_requests:
  "(Doc_set ''users'' ''merchant-user-001'' doc \<in> set (requests (createTestUsers rt (fresh d))))
     = (doc = userData rt (testUsers (clock rt) ! Suc 0) \<and> faults rt (Suc 0) Check = None
        \<and> where_eq ''email'' (Str ''merchant@eventnft.app'')
             (users (createTestUsers_body rt 0 (testUsers (clock rt) ! 0) (fresh d))) = []
        \<and> faults rt (Suc 0) Hashing = None)"
  "(Doc_set ''merchants'' ''merchant-user-001'' doc \<in> set (requests (createTestUsers rt (fresh d))))
     = (doc = userData rt (testUsers (clock rt) ! Suc 0) \<and> faults rt (Suc 0) Check = None
        \<and> where_eq ''email'' (Str ''merchant@eventnft.app'')
             (users (createTestUsers_body rt 0 (testUsers (clock rt) ! 0) (fresh d))) = []
        \<and> faults rt (Suc 0) Hashing = None \<and> faults rt (Suc 0) Write_user = None)"
proof -
  let ?q0 = "log Stdout (busts @ '' Creating test users...'' @ [CHR 0x0A]) (fresh d)"
  let ?q1 = "createTestUsers_body rt 0 (testUsers (clock rt) ! 0) ?q0"
  let ?q2 = "createTestUsers_body rt (Suc 0) (testUsers (clock rt) ! Suc 0) ?q1"
  have u1: "users ?q1 = users (createTestUsers_body rt 0 (testUsers (clock rt) ! 0) (fresh d))"
    by (simp add: users_body)
  have k0: "''merchant-user-001'' \<noteq> uid (testUsers (clock rt) ! 0)"
    and k2: "''merchant-user-001'' \<noteq> uid (testUsers (clock rt) ! 2)"
    by (simp_all add: seed_nth)
  have m: "''merchant-user-001'' = uid (testUsers (clock rt) ! Suc 0)"
    by (simp add: seed_nth)
  have r0: "requests ?q0 = []" by simp
  have "(Doc_set ''users'' ''merchant-user-001'' doc \<in> set (requests (createTestUsers rt (fresh d))))
      = (Doc_set ''users'' ''merchant-user-001'' doc \<in> set (requests ?q2))"
    unfolding run_unfold by (rule doc_request_other [OF k2])
  also have "\<dots> = (Doc_set ''users'' ''merchant-user-001'' doc \<in> set (requests ?q1)
        \<or> doc = userData rt (testUsers (clock rt) ! Suc 0) \<and> faults rt (Suc 0) Check = None
          \<and> where_eq ''email'' (Str (email (testUsers (clock rt) ! Suc 0))) (users ?q1) = []
          \<and> faults rt (Suc 0) Hashing = None)"
    unfolding m by (rule doc_request_users)
  also have "(Doc_set ''users'' ''merchant-user-001'' doc \<in> set (requests ?q1)) = False"
    unfolding doc_request_other [OF k0] r0 by simp
  finally show "(Doc_set ''users'' ''merchant-user-001'' doc \<in> set (requests (createTestUsers rt (fresh d))))
     = (doc = userData rt (testUsers (clock rt) ! Suc 0) \<and> faults rt (Suc 0) Check = None
        \<and> where_eq ''email'' (Str ''merchant@eventnft.app'')
             (users (createTestUsers_body rt 0 (testUsers (clock rt) ! 0) (fresh d))) = []
        \<and> faults rt (Suc 0) Hashing = None)"
    unfolding u1 by (simp add: seed_nth)
  have "(Doc_set ''merchants'' ''merchant-user-001'' doc \<in> set (requests (createTestUsers rt (fresh d))))
      = (Doc_set ''merchants'' ''merchant-user-001'' doc \<in> set (requests ?q2))"
    unfolding run_unfold by (rule doc_request_other [OF k2])
  also have "\<dots> = (Doc_set ''merchants'' ''merchant-user-001'' doc \<in> set (requests ?q1)
        \<or> doc = userData rt (testUsers (clock rt) ! Suc 0) \<and> faults rt (Suc 0) Check = None
          \<and> where_eq ''email'' (Str (email (testUsers (clock rt) ! Suc 0))) (users ?q1) = []
          \<and> faults rt (Suc 0) Hashing = None \<and> faults rt (Suc 0) Write_user = None
          \<and> role (testUsers (clock rt) ! Suc 0) = ''merchant'')"
    unfolding m by (rule doc_request_merchants)
  also have "(Doc_set ''merchants'' ''merchant-user-001'' doc \<in> set (requests ?q1)) = False"
    unfolding doc_request_other [OF k0] r0 by simp
  finally show "(Doc_set ''merchants'' ''merchant-user-001'' doc \<in> set (requests (createTestUsers rt (fresh d))))
     = (doc = userData rt (testUsers (clock rt) ! Suc 0) \<and> faults rt (Suc 0) Check = None
        \<and> where_eq ''email'' (Str ''merchant@eventnft.app'')
             (users (createTestUsers_body rt 0 (testUsers (clock rt) ! 0) (fresh d))) = []
        \<and> faults rt (Suc 0) Hashing = None \<and> faults rt (Suc 0) Write_user = None)"
    unfolding u1 by (simp add: seed_nth)
qed

lemma merchant_stores:
  "merchants (createTestUsers rt (fresh d)) =
     (if faults rt (Suc 0) Check = None
         \<and> where_eq ''email'' (Str ''merchant@eventnft.app'')
             (users (createTestUsers_body rt 0 (testUsers (clock rt) ! 0) (fresh d))) = []
         \<and> faults rt (Suc 0) Hashing = None \<and> faults rt (Suc 0) Write_user = None
         \<and> faults rt (Suc 0) Write_merchant = None
      then AList.update ''merchant-user-001'' (userData rt (testUsers (clock rt) ! Suc 0))
             (merchants d)
      else merchants d)"
  "faults rt (Suc 0) Check = None
     \<and> where_eq ''email'' (Str ''merchant@eventnft.app'')
          (users (createTestUsers_body rt 0 (testUsers (clock rt) ! 0) (fresh d))) = []
     \<and> faults rt (Suc 0) Hashing = None \<and> faults rt (Suc 0) Write_user = None
   \<Longrightarrow> map_of (users (createTestUsers rt (fresh d))) ''merchant-user-001''
         = Some (userData rt (testUsers (clock rt) ! Suc 0))"
proof -
  let ?q0 = "log Stdout (busts @ '' Creating test users...'' @ [CHR 0x0A]) (fresh d)"
  let ?q1 = "createTestUsers_body rt 0 (testUsers (clock rt) ! 0) ?q0"
  let ?q2 = "createTestUsers_body rt (Suc 0) (testUsers (clock rt) ! Suc 0) ?q1"
  let ?q3 = "createTestUsers_body rt (Suc (Suc 0)) (testUsers (clock rt) ! 2) ?q2"
  let ?c = "faults rt (Suc 0) Check = None
         \<and> where_eq ''email'' (Str ''merchant@eventnft.app'')
             (users (createTestUsers_body rt 0 (testUsers (clock rt) ! 0) (fresh d))) = []
         \<and> faults rt (Suc 0) Hashing = None \<and> faults rt (Suc 0) Write_user = None"
  have u1: "users ?q1 = users (createTestUsers_body rt 0 (testUsers (clock rt) ! 0) (fresh d))"
    by (simp add: users_body)
  have m1: "merchants ?q1 = merchants d"
    unfolding merchants_body [of rt 0] by (simp add: seed_nth)
  have m2: "merchants ?q2 =
      (if ?c \<and> faults rt (Suc 0) Write_merchant = None
       then AList.update ''merchant-user-001'' (userData rt (testUsers (clock rt) ! Suc 0))
              (merchants ?q1)
       else merchants ?q1)"
    unfolding merchants_body [of rt "Suc 0"] u1 by (simp add: seed_nth)
  have m3: "merchants ?q3 = merchants ?q2"
    unfolding merchants_body [of rt "Suc (Suc 0)"] by (simp add: seed_nth)
  show "merchants (createTestUsers rt (fresh d)) =
     (if faults rt (Suc 0) Check = None
         \<and> where_eq ''email'' (Str ''merchant@eventnft.app'')
             (users (createTestUsers_body rt 0 (testUsers (clock rt) ! 0) (fresh d))) = []
         \<and> faults rt (Suc 0) Hashing = None \<and> faults rt (Suc 0) Write_user = None
         \<and> faults rt (Suc 0) Write_merchant = None
      then AList.update ''merchant-user-001'' (userData rt (testUsers (clock rt) ! Suc 0))
             (merchants d)
      else merchants d)"
    unfolding run_unfold m3 m2 m1 by simp
  assume c: ?c
  have u2: "users ?q2 =
      AList.update ''merchant-user-001'' (userData rt (testUsers (clock rt) ! Suc 0)) (users ?q1)"
    unfolding users_body [of rt "Suc 0"] u1 using c by (simp add: seed_nth)
  have u3: "map_of (users ?q3) ''merchant-user-001'' = map_of (users ?q2) ''merchant-user-001''"
    unfolding users_body [of rt "Suc (Suc 0)"] by (simp add: seed_nth map_of_update)
  show "map_of (users (createTestUsers rt (fresh d))) ''merchant-user-001''
         = Some (userData rt (testUsers (clock rt) ! Suc 0))"
    unfolding run_unfold u3 u2 by (simp add: map_of_update)
qed

text \<open>
  C3. Role-conditional duplication, for every store and every run over the fixed list.
  A write to \<open>merchants\<close> is only ever sent for the key \<open>merchant-user-001\<close>, with the
  document of the merchant record, the very document sent to \<open>users\<close> under that key in
  the same run. It is sent exactly when the merchant record's write to \<open>users\<close> was sent
  and did not reject. The \<open>merchants\<close> collection changes only by that write, and once it
  has succeeded both collections hold the same document under the same key. The other two
  records have the roles \<open>admin\<close> and \<open>user\<close> and never write to \<open>merchants\<close>.
\<close>

theorem merchant_mirror:
  "(\<forall>k doc. Doc_set ''merchants'' k doc \<in> set (requests (createTestUsers rt (fresh d))) \<longrightarrow>
        k = ''merchant-user-001'' \<and> doc = userData rt (testUsers (clock rt) ! 1)
        \<and> Doc_set ''users'' k doc \<in> set (requests (createTestUsers rt (fresh d))))
   \<and> (Doc_set ''merchants'' ''merchant-user-001'' (userData rt (testUsers (clock rt) ! 1))
         \<in> set (requests (createTestUsers rt (fresh d))))
      = (Doc_set ''users'' ''merchant-user-001'' (userData rt (testUsers (clock rt) ! 1))
           \<in> set (requests (createTestUsers rt (fresh d)))
         \<and> faults rt 1 Write_user = None)
   \<and> merchants (createTestUsers rt (fresh d)) =
       (if Doc_set ''merchants'' ''merchant-user-001'' (userData rt (testUsers (clock rt) ! 1))
             \<in> set (requests (createTestUsers rt (fresh d)))
           \<and> faults rt 1 Write_merchant = None
        then AList.update ''merchant-user-001'' (userData rt (testUsers (clock rt) ! 1))
               (merchants d)
        else merchants d)
   \<and> (Doc_set ''merchants'' ''merchant-user-001'' (userData rt (testUsers (clock rt) ! 1))
         \<in> set (requests (createTestUsers rt (fresh d)))
       \<and> faults rt 1 Write_merchant = None \<longrightarrow>
         map_of (users (createTestUsers rt (fresh d))) ''merchant-user-001''
           = Some (userData rt (testUsers (clock rt) ! 1))
         \<and> map_of (merchants (createTestUsers rt (fresh d))) ''merchant-user-001''
           = Some (userData rt (testUsers (clock rt) ! 1)))
   \<and> map role (testUsers (clock rt)) = [''admin'', ''merchant'', ''user'']"
proof (intro conjI allI impI)
  fix k doc
  assume a: "Doc_set ''merchants'' k doc \<in> set (requests (createTestUsers rt (fresh d)))"
  let ?p0 = "log Stdout (busts @ '' Creating test users...'' @ [CHR 0x0A]) (fresh d)"
  from a doc_requests_loop [of "''merchants''" k doc rt 0 "testUsers (clock rt)" ?p0]
  obtain u where u: "u \<in> set (testUsers (clock rt))" "k = uid u" "doc = userData rt u"
    "Doc_set ''users'' k doc \<in> set (requests (createTestUsers rt (fresh d)))"
    "role u = ''merchant''"
    unfolding createTestUsers_def by auto
  from only_merchant [OF u(1) u(5)] have "u = testUsers (clock rt) ! 1" .
  with u show "k = ''merchant-user-001''" "doc = userData rt (testUsers (clock rt) ! 1)"
    "Doc_set ''users'' k doc \<in> set (requests (createTestUsers rt (fresh d)))"
    by (simp_all add: seed_nth)
next
  show "(Doc_set ''merchants'' ''merchant-user-001'' (userData rt (testUsers (clock rt) ! 1))
         \<in> set (requests (createTestUsers rt (fresh d))))
      = (Doc_set ''users'' ''merchant-user-001'' (userData rt (testUsers (clock rt) ! 1))
           \<in> set (requests (createTestUsers rt (fresh d)))
         \<and> faults rt 1 Write_user = None)"
    by (simp add: merchant_requests)
next
  show "merchants (createTestUsers rt (fresh d)) =
       (if Doc_set ''merchants'' ''merchant-user-001'' (userData rt (testUsers (clock rt) ! 1))
             \<in> set (requests (createTestUsers rt (fresh d)))
           \<and> faults rt 1 Write_merchant = None
        then AList.update ''merchant-user-001'' (userData rt (testUsers (clock rt) ! 1))
               (merchants d)
        else merchants d)"
    by (simp add: merchant_requests merchant_stores(1))
next
  assume a: "Doc_set ''merchants'' ''merchant-user-001'' (userData rt (testUsers (clock rt) ! 1))
         \<in> set (requests (createTestUsers rt (fresh d)))
       \<and> faults rt 1 Write_merchant = None"
  then have c: "faults rt (Suc 0) Check = None
     \<and> where_eq ''email'' (Str ''merchant@eventnft.app'')
          (users (createTestUsers_body rt 0 (testUsers (clock rt) ! 0) (fresh d))) = []
     \<and> faults rt (Suc 0) Hashing = None \<and> faults rt (Suc 0) Write_user = None"
    and w: "faults rt (Suc 0) Write_merchant = None"
    by (simp_all add: merchant_requests)
  from merchant_stores(2) [OF c]
  show "map_of (users (createTestUsers rt (fresh d))) ''merchant-user-001''
           = Some (userData rt (testUsers (clock rt) ! 1))"
    by simp
  from c w show "map_of (merchants (createTestUsers rt (fresh d))) ''merchant-user-001''
           = Some (userData rt (testUsers (clock rt) ! 1))"
    by (simp add: merchant_stores(1) map_of_update)
next
  show "map role (testUsers (clock rt)) = [''admin'', ''merchant'', ''user'']"
    by (simp add: testUsers_def)
qed

theorem merchant_mirror_witness:
  "Doc_set ''merchants'' ''merchant-user-001'' (userData calm (testUsers (clock calm) ! 1))
     \<in> set (requests (createTestUsers calm (fresh empty_db)))
   \<and> map_of (users (createTestUsers calm (fresh empty_db))) ''merchant-user-001''
       = Some (userData calm (testUsers (clock calm) ! 1))
   \<and> map_of (merchants (createTestUsers calm (fresh empty_db))) ''merchant-user-001''
       = Some (userData calm (testUsers (clock calm) ! 1))"
proof -
  have r: "Doc_set ''users'' ''merchant-user-001'' (userData calm (testUsers (clock calm) ! 1))
             \<in> set (requests (createTestUsers calm (fresh empty_db)))"
    by (simp add: createTestUsers_def testUsers_def requests_body calm_def no_faults_def
          empty_db_def where_eq_def userData_def users_body)
  have f: "faults calm 1 Write_user = None" "faults calm 1 Write_merchant = None"
    by (simp_all add: calm_def no_faults_def)
  note t = merchant_mirror [of calm empty_db]
  from t r f show ?thesis by blast
qed

text \<open>
  C2. Password confidentiality. \<^verbatim>\<open>bcryptjs\<close> is a dependency; what is assumed of it is
  the format of its result, a string of 60 characters. Then, for every store and every
  run: every document the seeder sends to the store is \<open>userData\<close> of one of the three
  records under that record's key, every document in the store after the run was there
  before or is such a document, and in such a document the field \<open>password\<close> holds
  \<^verbatim>\<open>bcrypt.hash(password, 12)\<close>, which differs from the plaintext, and no field holds the
  plaintext.
\<close>

theorem password_confidentiality:
  assumes fmt: "\<forall>pw. length (bcrypt_hash rt pw 12) = 60"
  shows "(\<forall>c k doc. Doc_set c k doc \<in> set (requests (createTestUsers rt (fresh d))) \<longrightarrow>
            (\<exists>u \<in> set (testUsers (clock rt)). k = uid u \<and> doc = userData rt u))
     \<and> (\<forall>k doc. (k, doc) \<in> set (users (createTestUsers rt (fresh d))) \<longrightarrow>
            (k, doc) \<in> set (users d)
            \<or> (\<exists>u \<in> set (testUsers (clock rt)). k = uid u \<and> doc = userData rt u))
     \<and> (\<forall>k doc. (k, doc) \<in> set (merchants (createTestUsers rt (fresh d))) \<longrightarrow>
            (k, doc) \<in> set (merchants d)
            \<or> (\<exists>u \<in> set (testUsers (clock rt)). k = uid u \<and> doc = userData rt u))
     \<and> (\<forall>u \<in> set (testUsers (clock rt)).
            map_of (userData rt u) ''password'' = Some (Str (bcrypt_hash rt (password u) 12))
            \<and> bcrypt_hash rt (password u) 12 \<noteq> password u
            \<and> (\<forall>f. (f, Str (password u)) \<notin> set (userData rt u)))"
proof (intro conjI allI impI ballI)
  let ?p0 = "log Stdout (busts @ '' Creating test users...'' @ [CHR 0x0A]) (fresh d)"
  fix c k doc
  assume "Doc_set c k doc \<in> set (requests (createTestUsers rt (fresh d)))"
  with doc_requests_loop [of c k doc rt 0 "testUsers (clock rt)" ?p0]
  show "\<exists>u \<in> set (testUsers (clock rt)). k = uid u \<and> doc = userData rt u"
    unfolding createTestUsers_def by auto
next
  let ?p0 = "log Stdout (busts @ '' Creating test users...'' @ [CHR 0x0A]) (fresh d)"
  fix k doc
  assume "(k, doc) \<in> set (users (createTestUsers rt (fresh d)))"
  with entries_loop(1) [of rt 0 "testUsers (clock rt)" ?p0]
  show "(k, doc) \<in> set (users d)
          \<or> (\<exists>u \<in> set (testUsers (clock rt)). k = uid u \<and> doc = userData rt u)"
    unfolding createTestUsers_def by auto
next
  let ?p0 = "log Stdout (busts @ '' Creating test users...'' @ [CHR 0x0A]) (fresh d)"
  fix k doc
  assume "(k, doc) \<in> set (merchants (createTestUsers rt (fresh d)))"
  with entries_loop(2) [of rt 0 "testUsers (clock rt)" ?p0]
  show "(k, doc) \<in> set (merchants d)
          \<or> (\<exists>u \<in> set (testUsers (clock rt)). k = uid u \<and> doc = userData rt u)"
    unfolding createTestUsers_def by auto
next
  fix u
  assume u: "u \<in> set (testUsers (clock rt))"
  note s = seed_password [OF u, of rt]
  from s show "map_of (userData rt u) ''password'' = Some (Str (bcrypt_hash rt (password u) 12))"
    by blast
  from s fmt show ne: "bcrypt_hash rt (password u) 12 \<noteq> password u"
    by (metis less_irrefl)
  fix f
  show "(f, Str (password u)) \<notin> set (userData rt u)"
  proof
    assume "(f, Str (password u)) \<in> set (userData rt u)"
    with s have "Str (password u) = Str (bcrypt_hash rt (password u) 12)" by blast
    with ne show False by simp
  qed
qed

theorem password_confidentiality_witness:
  "map_of (userData calm (testUsers (clock calm) ! 0)) ''password''
     = Some (Str (sample_hash ''Admin123!'' 12))
   \<and> sample_hash ''Admin123!'' 12 \<noteq> ''Admin123!''
   \<and> (''password'', Str ''Admin123!'') \<notin> set (userData calm (testUsers (clock calm) ! 0))"
proof -
  have fmt: "\<forall>pw. length (bcrypt_hash calm pw 12) = 60"
    by (simp add: calm_def sample_hash_def)
  have u: "testUsers (clock calm) ! 0 \<in> set (testUsers (clock calm))"
    and p: "password (testUsers (clock calm) ! 0) = ''Admin123!''"
    and h: "bcrypt_hash calm = sample_hash"
    by (simp_all add: testUsers_def calm_def)
  from password_confidentiality [OF fmt, of empty_db] u
  have "map_of (userData calm (testUsers (clock calm) ! 0)) ''password''
          = Some (Str (bcrypt_hash calm (password (testUsers (clock calm) ! 0)) 12))
        \<and> bcrypt_hash calm (password (testUsers (clock calm) ! 0)) 12
            \<noteq> password (testUsers (clock calm) ! 0)
        \<and> (\<forall>f. (f, Str (password (testUsers (clock calm) ! 0)))
              \<notin> set (userData calm (testUsers (clock calm) ! 0)))"
    by blast
  then show ?thesis unfolding p h by blast
qed

lemma checks_loop:
  "filter is_check (requests (createTestUsers_loop rt i us p)) =
     filter is_check (requests p) @ map (\<lambda>u. Where_get ''users'' ''email'' (Str (email u))) us"
  by (induction us arbitrary: i p) (simp_all add: requests_body)

lemma console_loop:
  "length (console (createTestUsers_loop rt i us p)) = length (console p) + length us"
  by (induction us arbitrary: i p) (simp_all add: console_body)

lemma body_keeps_absent:
  assumes "map_of (userData rt u) ''email'' \<noteq> Some x" and "where_eq ''email'' x (users p) = []"
  shows "where_eq ''email'' x (users (createTestUsers_body rt i u p)) = []"
  using assms where_eq_update [of "''email''" x "uid u" "userData rt u" "users p"]
  by (simp add: users_body)

lemma seed_nth_email:
  "map_of (userData rt (testUsers c ! 0)) ''email'' = Some (Str ''admin@eventnft.app'')"
  "map_of (userData rt (testUsers c ! Suc 0)) ''email'' = Some (Str ''merchant@eventnft.app'')"
  "map_of (userData rt (testUsers c ! 2)) ''email'' = Some (Str ''user@eventnft.app'')"
  by (simp_all add: testUsers_def userData_def)

lemma later_records_persisted:
  assumes f1: "\<forall>st. faults rt 1 st = None" and f2: "\<forall>st. faults rt 2 st = None"
    and m: "where_eq ''email'' (Str ''merchant@eventnft.app'') (users d) = []"
    and u: "where_eq ''email'' (Str ''user@eventnft.app'') (users d) = []"
  shows "map_of (users (createTestUsers rt (fresh d))) ''merchant-user-001''
           = Some (userData rt (testUsers (clock rt) ! 1))"
    and "map_of (users (createTestUsers rt (fresh d))) ''regular-user-001''
           = Some (userData rt (testUsers (clock rt) ! 2))"
    and "map_of (merchants (createTestUsers rt (fresh d))) ''merchant-user-001''
           = Some (userData rt (testUsers (clock rt) ! 1))"
proof -
  let ?q0 = "log Stdout (busts @ '' Creating test users...'' @ [CHR 0x0A]) (fresh d)"
  let ?q1 = "createTestUsers_body rt 0 (testUsers (clock rt) ! 0) ?q0"
  let ?q2 = "createTestUsers_body rt (Suc 0) (testUsers (clock rt) ! Suc 0) ?q1"
  let ?q3 = "createTestUsers_body rt (Suc (Suc 0)) (testUsers (clock rt) ! 2) ?q2"
  have g1: "faults rt (Suc 0) st = None" for st using f1 by simp
  have g2: "faults rt (Suc (Suc 0)) st = None" for st
    using f2 by (simp add: numeral_2_eq_2)
  have m1: "where_eq ''email'' (Str ''merchant@eventnft.app'') (users ?q1) = []"
    by (rule body_keeps_absent) (simp_all add: seed_nth_email m)
  have u1: "where_eq ''email'' (Str ''user@eventnft.app'') (users ?q1) = []"
    by (rule body_keeps_absent) (simp_all add: seed_nth_email u)
  have u2: "where_eq ''email'' (Str ''user@eventnft.app'') (users ?q2) = []"
    by (rule body_keeps_absent [OF _ u1]) (simp add: seed_nth_email)
  have w2: "users ?q2 =
      AList.update ''merchant-user-001'' (userData rt (testUsers (clock rt) ! Suc 0)) (users ?q1)"
    unfolding users_body [of rt "Suc 0"] using m1 by (simp add: seed_nth g1)
  have w3: "users ?q3 =
      AList.update ''regular-user-001'' (userData rt (testUsers (clock rt) ! 2)) (users ?q2)"
    unfolding users_body [of rt "Suc (Suc 0)"] using u2 by (simp add: seed_nth g2)
  show "map_of (users (createTestUsers rt (fresh d))) ''merchant-user-001''
           = Some (userData rt (testUsers (clock rt) ! 1))"
    unfolding run_unfold w3 w2 by (simp add: map_of_update)
  show "map_of (users (createTestUsers rt (fresh d))) ''regular-user-001''
           = Some (userData rt (testUsers (clock rt) ! 2))"
    unfolding run_unfold w3 by (simp add: map_of_update)
  have "where_eq ''email'' (Str ''merchant@eventnft.app'')
          (users (createTestUsers_body rt 0 (testUsers (clock rt) ! 0) (fresh d))) = []"
    by (rule body_keeps_absent) (simp_all add: seed_nth_email m)
  then show "map_of (merchants (createTestUsers rt (fresh d))) ''merchant-user-001''
           = Some (userData rt (testUsers (clock rt) ! 1))"
    by (simp add: merchant_stores(1) g1 map_of_update)
qed

lemma exit_status: "fst (script w) = (case initFirebase (admin_sdk w) (process_env w) of Inl err \<Rightarrow> 1 | Inr db \<Rightarrow> 0)"
  by (simp add: script_def Let_def split: sum.splits)

text \<open>
  C4. Partial-failure isolation. Each iteration writes exactly one console line: when a
  step it reaches rejects (the existence check, the hashing, either write), that line is
  the error line with the record's email and the error's message. Whatever rejects, every
  record of the list is attempted, in order (the existence checks sent are those of all
  the records), and one line per record is written. On the fixed list, whatever happens
  to the first record, the second and third are persisted when none of their own steps
  rejects and their emails are not yet in the store. The exit status of the script does
  not depend on what rejects during seeding.
\<close>

theorem partial_failure_isolation:
  "console (createTestUsers_body rt i u p) =
     console p @
       [case first_fault rt i u (users p) of
          Some err \<Rightarrow> (Stderr, cross_mark @ '' Failed to create user '' @ email u @ '': '' @ err)
        | None \<Rightarrow>
            (Stdout, if where_eq ''email'' (Str (email u)) (users p) = [] then created_line u
                     else exists_line u)]
   \<and> filter is_check (requests (createTestUsers_loop rt i us (fresh d))) =
       map (\<lambda>u. Where_get ''users'' ''email'' (Str (email u))) us
   \<and> length (console (createTestUsers_loop rt i us (fresh d))) = length us
   \<and> ((\<forall>st. faults rt 1 st = None) \<and> (\<forall>st. faults rt 2 st = None)
       \<and> where_eq ''email'' (Str ''merchant@eventnft.app'') (users d) = []
       \<and> where_eq ''email'' (Str ''user@eventnft.app'') (users d) = [] \<longrightarrow>
         map_of (users (createTestUsers rt (fresh d))) ''merchant-user-001''
           = Some (userData rt (testUsers (clock rt) ! 1))
         \<and> map_of (users (createTestUsers rt (fresh d))) ''regular-user-001''
           = Some (userData rt (testUsers (clock rt) ! 2))
         \<and> map_of (merchants (createTestUsers rt (fresh d))) ''merchant-user-001''
           = Some (userData rt (testUsers (clock rt) ! 1)))
   \<and> fst (script (w\<lparr>run := rt\<rparr>)) = fst (script w)"
proof (intro conjI impI)
  show "console (createTestUsers_body rt i u p) =
     console p @
       [case first_fault rt i u (users p) of
          Some err \<Rightarrow> (Stderr, cross_mark @ '' Failed to create user '' @ email u @ '': '' @ err)
        | None \<Rightarrow>
            (Stdout, if where_eq ''email'' (Str (email u)) (users p) = [] then created_line u
                     else exists_line u)]"
    by (rule console_body)
  show "filter is_check (requests (createTestUsers_loop rt i us (fresh d))) =
       map (\<lambda>u. Where_get ''users'' ''email'' (Str (email u))) us"
    by (simp add: checks_loop)
  show "length (console (createTestUsers_loop rt i us (fresh d))) = length us"
    by (simp add: console_loop)
  show "fst (script (w\<lparr>run := rt\<rparr>)) = fst (script w)"
    by (simp add: exit_status process_env_def)
next
  assume a: "(\<forall>st. faults rt 1 st = None) \<and> (\<forall>st. faults rt 2 st = None)
       \<and> where_eq ''email'' (Str ''merchant@eventnft.app'') (users d) = []
       \<and> where_eq ''email'' (Str ''user@eventnft.app'') (users d) = []"
  then have f1: "\<forall>st. faults rt 1 st = None" and f2: "\<forall>st. faults rt 2 st = None"
    and m: "where_eq ''email'' (Str ''merchant@eventnft.app'') (users d) = []"
    and u: "where_eq ''email'' (Str ''user@eventnft.app'') (users d) = []"
    by blast+
  show "map_of (users (createTestUsers rt (fresh d))) ''merchant-user-001''
           = Some (userData rt (testUsers (clock rt) ! 1))"
    by (rule later_records_persisted(1) [OF f1 f2 m u])
  show "map_of (users (createTestUsers rt (fresh d))) ''regular-user-001''
           = Some (userData rt (testUsers (clock rt) ! 2))"
    by (rule later_records_persisted(2) [OF f1 f2 m u])
  show "map_of (merchants (createTestUsers rt (fresh d))) ''merchant-user-001''
           = Some (userData rt (testUsers (clock rt) ! 1))"
    by (rule later_records_persisted(3) [OF f1 f2 m u])
qed

theorem partial_failure_isolation_witness:
  "map_of (users (createTestUsers admin_write_fails (fresh empty_db))) ''admin-user-001'' = None
   \<and> (Stderr, cross_mark @ '' Failed to create user admin@eventnft.app: unavailable'')
       \<in> set (console (createTestUsers admin_write_fails (fresh empty_db)))
   \<and> map_of (users (createTestUsers admin_write_fails (fresh empty_db))) ''merchant-user-001''
       = Some (userData admin_write_fails (testUsers (clock admin_write_fails) ! 1))
   \<and> map_of (users (createTestUsers admin_write_fails (fresh empty_db))) ''regular-user-001''
       = Some (userData admin_write_fails (testUsers (clock admin_write_fails) ! 2))"
proof -
  have f: "(\<forall>st. faults admin_write_fails 1 st = None)
           \<and> (\<forall>st. faults admin_write_fails 2 st = None)"
    by (simp add: admin_write_fails_def)
  have e: "where_eq ''email'' (Str ''merchant@eventnft.app'') (users empty_db) = []
           \<and> where_eq ''email'' (Str ''user@eventnft.app'') (users empty_db) = []"
    by (simp add: empty_db_def where_eq_def)
  have a: "map_of (users (createTestUsers admin_write_fails (fresh empty_db))) ''admin-user-001''
             = None"
    by (simp add: createTestUsers_def testUsers_def users_body admin_write_fails_def
          empty_db_def where_eq_def userData_def)
  have c: "(Stderr, cross_mark @ '' Failed to create user admin@eventnft.app: unavailable'')
       \<in> set (console (createTestUsers admin_write_fails (fresh empty_db)))"
    by (simp add: createTestUsers_def testUsers_def users_body console_body first_fault_def
          admin_write_fails_def empty_db_def where_eq_def userData_def log_def)
  note t = partial_failure_isolation [where rt = admin_write_fails and d = empty_db]
  from t f e a c show ?thesis by blast
qed

lemma body_keeps:
  "k \<noteq> uid u \<Longrightarrow>
     ((k, doc) \<in> set (users (createTestUsers_body rt i u p))) = ((k, doc) \<in> set (users p))"
  by (simp add: users_body update_other)

lemma checks_only_users_body:
  "Where_get c f v \<in> set (requests (createTestUsers_body rt i u p)) \<Longrightarrow>
     Where_get c f v \<in> set (requests p) \<or> c = ''users'' \<and> f = ''email''"
  by (auto simp: requests_body split: if_splits)

lemma checks_only_users_loop:
  "Where_get c f v \<in> set (requests (createTestUsers_loop rt i us p)) \<Longrightarrow>
     Where_get c f v \<in> set (requests p) \<or> c = ''users'' \<and> f = ''email''"
proof (induction us arbitrary: i p)
  case Nil
  then show ?case by simp
next
  case (Cons u us)
  from Cons.IH [of "Suc i" "createTestUsers_body rt i u p"] Cons.prems
  have "Where_get c f v \<in> set (requests (createTestUsers_body rt i u p))
        \<or> c = ''users'' \<and> f = ''email''"
    by simp
  with checks_only_users_body [of c f v rt i u p] show ?case by blast
qed

lemma has_merchant_found:
  "has_merchant d \<Longrightarrow> where_eq ''email'' (Str ''merchant@eventnft.app'') (users d) \<noteq> []"
  by (auto simp: has_merchant_def where_eq_Nil)

lemma run_skips_merchant:
  assumes Q: "has_merchant d"
  shows "has_merchant (createTestUsers rt (fresh d))"
    and "merchants (createTestUsers rt (fresh d)) = merchants d"
    and "Doc_set c ''merchant-user-001'' doc \<notin> set (requests (createTestUsers rt (fresh d)))"
    and "faults rt 1 Check = None \<Longrightarrow>
           (Stdout, exists_line (testUsers (clock rt) ! 1))
             \<in> set (console (createTestUsers rt (fresh d)))"
proof -
  let ?q0 = "log Stdout (busts @ '' Creating test users...'' @ [CHR 0x0A]) (fresh d)"
  let ?q1 = "createTestUsers_body rt 0 (testUsers (clock rt) ! 0) ?q0"
  let ?q2 = "createTestUsers_body rt (Suc 0) (testUsers (clock rt) ! Suc 0) ?q1"
  let ?q3 = "createTestUsers_body rt (Suc (Suc 0)) (testUsers (clock rt) ! 2) ?q2"
  let ?r1 = "createTestUsers_body rt 0 (testUsers (clock rt) ! 0) (fresh d)"
  have k0: "''merchant-user-001'' \<noteq> uid (testUsers (clock rt) ! 0)"
    and k2: "''merchant-user-001'' \<noteq> uid (testUsers (clock rt) ! 2)"
    by (simp_all add: seed_nth)
  from Q obtain md where md: "(''merchant-user-001'', md) \<in> set (users d)"
    "map_of md ''email'' = Some (Str ''merchant@eventnft.app'')"
    unfolding has_merchant_def by blast
  have "(''merchant-user-001'', md) \<in> set (users ?q1)"
    unfolding body_keeps [OF k0] using md(1) by simp
  with md(2) have Q1: "has_merchant ?q1" unfolding has_merchant_def by blast
  have ur: "users ?r1 = users ?q1" by (simp add: users_body)
  have found: "where_eq ''email'' (Str ''merchant@eventnft.app'') (users ?q1) \<noteq> []"
    by (rule has_merchant_found [OF Q1])
  then have found': "where_eq ''email'' (Str ''merchant@eventnft.app'') (users ?r1) \<noteq> []"
    unfolding ur .
  have u2: "users ?q2 = users ?q1"
    unfolding users_body [of rt "Suc 0"] using found by (simp add: seed_nth)
  have "(''merchant-user-001'', md) \<in> set (users ?q3)"
    unfolding body_keeps [OF k2] u2 by fact
  with md(2) show "has_merchant (createTestUsers rt (fresh d))"
    unfolding run_unfold has_merchant_def by blast
  show "merchants (createTestUsers rt (fresh d)) = merchants d"
    using found' by (simp add: merchant_stores(1))
  have "c = ''users'' \<or> c = ''merchants''"
    if "Doc_set c ''merchant-user-001'' doc \<in> set (requests (createTestUsers rt (fresh d)))"
    using doc_requests_loop [of c "''merchant-user-001''" doc rt 0 "testUsers (clock rt)" ?q0] that
    unfolding createTestUsers_def by auto
  then show "Doc_set c ''merchant-user-001'' doc \<notin> set (requests (createTestUsers rt (fresh d)))"
    using found' merchant_requests [of doc rt d] by blast
  assume chk: "faults rt 1 Check = None"
  have "first_fault rt (Suc 0) (testUsers (clock rt) ! Suc 0) (users ?q1) = None"
    using chk found by (simp add: first_fault_def seed_nth)
  then have "console ?q2 = console ?q1 @ [(Stdout, exists_line (testUsers (clock rt) ! Suc 0))]"
    unfolding console_body [of rt "Suc 0"] using found by (simp add: seed_nth)
  then have "(Stdout, exists_line (testUsers (clock rt) ! Suc 0)) \<in> set (console ?q3)"
    unfolding console_body [of rt "Suc (Suc 0)"] by simp
  then show "(Stdout, exists_line (testUsers (clock rt) ! 1))
             \<in> set (console (createTestUsers rt (fresh d)))"
    unfolding run_unfold by simp
qed

lemma reruns_skip_merchant:
  "has_merchant d \<Longrightarrow>
     has_merchant (reruns rts d) \<and> merchants (reruns rts d) = merchants d"
proof (induction rts arbitrary: d)
  case Nil
  then show ?case by simp
next
  case (Cons rt rts)
  let ?d = "store_of (createTestUsers rt (fresh d))"
  have "has_merchant ?d"
    using run_skips_merchant(1) [OF Cons.prems, of rt]
    by (simp add: has_merchant_def store_of_def)
  from Cons.IH [OF this] run_skips_merchant(2) [OF Cons.prems, of rt]
  show ?case by (simp add: store_of_def)
qed

lemma mirror_failure_run:
  assumes a: "where_eq ''email'' (Str ''merchant@eventnft.app'') (users d) = []"
    and f: "faults rt 1 Check = None" "faults rt 1 Hashing = None"
      "faults rt 1 Write_user = None" "faults rt 1 Write_merchant = Some err"
  shows "(''merchant-user-001'', userData rt (testUsers (clock rt) ! 1))
           \<in> set (users (createTestUsers rt (fresh d)))"
    and "merchants (createTestUsers rt (fresh d)) = merchants d"
    and "(Stderr, cross_mark @ '' Failed to create user merchant@eventnft.app: '' @ err)
           \<in> set (console (createTestUsers rt (fresh d)))"
proof -
  let ?q0 = "log Stdout (busts @ '' Creating test users...'' @ [CHR 0x0A]) (fresh d)"
  let ?q1 = "createTestUsers_body rt 0 (testUsers (clock rt) ! 0) ?q0"
  let ?q2 = "createTestUsers_body rt (Suc 0) (testUsers (clock rt) ! Suc 0) ?q1"
  let ?q3 = "createTestUsers_body rt (Suc (Suc 0)) (testUsers (clock rt) ! 2) ?q2"
  have g: "faults rt (Suc 0) Check = None" "faults rt (Suc 0) Hashing = None"
      "faults rt (Suc 0) Write_user = None" "faults rt (Suc 0) Write_merchant = Some err"
    using f by simp_all
  have k2: "''merchant-user-001'' \<noteq> uid (testUsers (clock rt) ! 2)"
    by (simp add: seed_nth)
  have m1: "where_eq ''email'' (Str ''merchant@eventnft.app'') (users ?q1) = []"
    by (rule body_keeps_absent) (simp_all add: seed_nth_email a)
  have w2: "users ?q2 =
      AList.update ''merchant-user-001'' (userData rt (testUsers (clock rt) ! Suc 0)) (users ?q1)"
    unfolding users_body [of rt "Suc 0"] using m1 by (simp add: seed_nth g)
  have "(''merchant-user-001'', userData rt (testUsers (clock rt) ! Suc 0)) \<in> set (users ?q3)"
    unfolding body_keeps [OF k2] w2 by (rule update_self)
  then show "(''merchant-user-001'', userData rt (testUsers (clock rt) ! 1))
           \<in> set (users (createTestUsers rt (fresh d)))"
    unfolding run_unfold by simp
  show "merchants (createTestUsers rt (fresh d)) = merchants d"
    by (simp add: merchant_stores(1) g)
  have "first_fault rt (Suc 0) (testUsers (clock rt) ! Suc 0) (users ?q1) = Some err"
    using m1 by (simp add: first_fault_def seed_nth g)
  then have "console ?q2 = console ?q1 @
      [(Stderr, cross_mark @ '' Failed to create user merchant@eventnft.app: '' @ err)]"
    unfolding console_body [of rt "Suc 0"] by (simp add: seed_nth)
  then have "(Stderr, cross_mark @ '' Failed to create user merchant@eventnft.app: '' @ err)
      \<in> set (console ?q3)"
    unfolding console_body [of rt "Suc (Suc 0)"] by simp
  then show "(Stderr, cross_mark @ '' Failed to create user merchant@eventnft.app: '' @ err)
           \<in> set (console (createTestUsers rt (fresh d)))"
    unfolding run_unfold by simp
qed

text \<open>
  C10. The merchant-mirror gap. Take a run in which the merchant record is new, its
  existence check, hashing and write to \<open>users\<close> succeed, and its write to \<open>merchants\<close>
  rejects: after it \<open>users\<close> holds the merchant's document, \<open>merchants\<close> is as before, and
  the error line is on the console. Then after any further runs the existence check still
  finds the merchant's email, and every later run leaves \<open>merchants\<close> as it was before the
  first run, sends no write for the key \<open>merchant-user-001\<close> to any collection, and reports
  "already exists" for the merchant when its check does not reject. Every existence check
  is a query on \<open>users\<close> by \<open>email\<close>; \<open>merchants\<close> is never queried.
\<close>

theorem merchant_mirror_gap:
  assumes "where_eq ''email'' (Str ''merchant@eventnft.app'') (users d) = []"
    and "faults rta 1 Check = None" and "faults rta 1 Hashing = None"
    and "faults rta 1 Write_user = None" and "faults rta 1 Write_merchant = Some err"
  shows "(''merchant-user-001'', userData rta (testUsers (clock rta) ! 1))
           \<in> set (users (createTestUsers rta (fresh d)))
     \<and> merchants (createTestUsers rta (fresh d)) = merchants d
     \<and> (Stderr, cross_mark @ '' Failed to create user merchant@eventnft.app: '' @ err)
           \<in> set (console (createTestUsers rta (fresh d)))
     \<and> where_eq ''email'' (Str ''merchant@eventnft.app'')
          (users (reruns rts (store_of (createTestUsers rta (fresh d))))) \<noteq> []
     \<and> merchants (createTestUsers rt
          (fresh (reruns rts (store_of (createTestUsers rta (fresh d)))))) = merchants d
     \<and> (\<forall>c doc. Doc_set c ''merchant-user-001'' doc
           \<notin> set (requests (createTestUsers rt
                 (fresh (reruns rts (store_of (createTestUsers rta (fresh d))))))))
     \<and> (faults rt 1 Check = None \<longrightarrow>
          (Stdout, exists_line (testUsers (clock rt) ! 1))
            \<in> set (console (createTestUsers rt
                  (fresh (reruns rts (store_of (createTestUsers rta (fresh d))))))))
     \<and> (\<forall>c f v. Where_get c f v
           \<in> set (requests (createTestUsers rt
                 (fresh (reruns rts (store_of (createTestUsers rta (fresh d)))))))
           \<longrightarrow> c = ''users'' \<and> f = ''email'')"
proof -
  let ?p1 = "createTestUsers rta (fresh d)"
  let ?d = "reruns rts (store_of ?p1)"
  note r = mirror_failure_run [OF assms]
  have "has_merchant (store_of ?p1)"
    unfolding has_merchant_def using r(1) seed_nth_email(2) [of rta "clock rta"]
    by (auto simp: store_of_def)
  from reruns_skip_merchant [OF this, where rts = rts]
  have Q: "has_merchant ?d" and M: "merchants ?d = merchants d"
    using r(2) by (simp_all add: store_of_def)
  note s = run_skips_merchant [OF Q, where rt = rt]
  have chk: "c = ''users'' \<and> f = ''email''"
    if "Where_get c f v \<in> set (requests (createTestUsers rt (fresh ?d)))" for c f v
    using checks_only_users_loop [where c = c and f = f and v = v and rt = rt and i = 0
        and us = "testUsers (clock rt)"
        and p = "log Stdout (busts @ '' Creating test users...'' @ [CHR 0x0A]) (fresh ?d)"] that
    unfolding createTestUsers_def by simp
  show ?thesis
    using r has_merchant_found [OF Q] s(2) s(3) s(4) M chk by auto
qed

theorem merchant_mirror_gap_witness:
  "(''merchant-user-001'', userData mirror_fails (testUsers (clock mirror_fails) ! 1))
      \<in> set (users (createTestUsers mirror_fails (fresh empty_db)))
   \<and> merchants (createTestUsers mirror_fails (fresh empty_db)) = []
   \<and> merchants (createTestUsers calm
        (fresh (reruns [calm, calm] (store_of (createTestUsers mirror_fails (fresh empty_db))))))
       = []
   \<and> (Stdout, exists_line (testUsers (clock calm) ! 1))
       \<in> set (console (createTestUsers calm
             (fresh (reruns [calm, calm] (store_of (createTestUsers mirror_fails (fresh empty_db)))))))"
proof -
  have a: "where_eq ''email'' (Str ''merchant@eventnft.app'') (users empty_db) = []"
    by (simp add: empty_db_def where_eq_def)
  have f: "faults mirror_fails 1 Check = None" "faults mirror_fails 1 Hashing = None"
    "faults mirror_fails 1 Write_user = None"
    "faults mirror_fails 1 Write_merchant = Some ''unavailable''"
    by (simp_all add: mirror_fails_def)
  have c: "faults calm 1 Check = None" by (simp add: calm_def no_faults_def)
  have e: "merchants empty_db = []" by (simp add: empty_db_def)
  note t = merchant_mirror_gap [OF a f, of "[calm, calm]" calm]
  from t c show ?thesis unfolding e by blast
qed

section \<open>Properties of the bootstrap and of the report\<close>

lemma script_checks:
  assumes "initFirebase (admin_sdk w) (process_env w) = Inr db"
  shows "filter is_check (requests (snd (script w))) =
           map (\<lambda>u. Where_get ''users'' ''email'' (Str (email u))) (testUsers (clock (run w)))"
  using assms
  by (simp add: script_def Let_def main_def displayCredentials_def createTestUsers_def
        checks_loop log_def)

text \<open>
  C8 (as amended). Fatal bootstrap failure. The bootstrap block (source lines 42 to 57) is
  synchronous: it builds the credential, the app and the database handle and awaits
  nothing, so it fails only by one of its calls throwing. The exit status is 1 exactly
  when it throws and 0 otherwise, whatever rejects during seeding. When it throws, the
  script has written the loader's diagnostics, the banner and the error line with the
  message, has sent no request and has left the store as it was. The bootstrap throws
  when no app exists yet and the private key is not set, or \<^verbatim>\<open>cert\<close> rejects the
  credentials (a malformed key), or \<^verbatim>\<open>initializeApp\<close> or \<^verbatim>\<open>getFirestore\<close> throws; with
  an app already there it is \<^verbatim>\<open>getFirestore\<close> alone that decides. When it does not
  throw, the seeder runs and sends the existence check of every record, whatever then
  rejects: a database that cannot be reached shows as rejected requests, each caught for
  its record, and the exit status is 0.
\<close>

theorem bootstrap_failure_fatal:
  "fst (script w) =
     (case initFirebase (admin_sdk w) (process_env w) of Inl err \<Rightarrow> 1 | Inr db \<Rightarrow> 0)
   \<and> (\<forall>err. initFirebase (admin_sdk w) (process_env w) = Inl err \<longrightarrow>
         snd (script w) =
           \<lparr>users = users (database w), merchants = merchants (database w),
            console = snd (loadEnvFile (env_file w)) @ banner
                      @ [(Stderr, cross_mark @ '' Failed to initialize Firebase Admin: '' @ err)],
            requests = []\<rparr>)
   \<and> (getApps (admin_sdk w) = [] \<and> process_env w ''FIREBASE_PRIVATE_KEY'' = None \<longrightarrow>
         initFirebase (admin_sdk w) (process_env w) = Inl undefined_replace)
   \<and> (\<forall>key err.
         getApps (admin_sdk w) = [] \<and> process_env w ''FIREBASE_PRIVATE_KEY'' = Some key
         \<and> cert (admin_sdk w)
             \<lparr>projectId = process_env w ''FIREBASE_PROJECT_ID'',
              clientEmail = process_env w ''FIREBASE_CLIENT_EMAIL'',
              privateKey = unescape_newlines key\<rparr> = Inl err \<longrightarrow>
         initFirebase (admin_sdk w) (process_env w) = Inl err)
   \<and> (\<forall>key credential.
         getApps (admin_sdk w) = [] \<and> process_env w ''FIREBASE_PRIVATE_KEY'' = Some key
         \<and> cert (admin_sdk w)
             \<lparr>projectId = process_env w ''FIREBASE_PROJECT_ID'',
              clientEmail = process_env w ''FIREBASE_CLIENT_EMAIL'',
              privateKey = unescape_newlines key\<rparr> = Inr credential \<longrightarrow>
         initFirebase (admin_sdk w) (process_env w) =
           (case initializeApp (admin_sdk w) credential of
              Inl err \<Rightarrow> Inl err | Inr app \<Rightarrow> getFirestore (admin_sdk w) app))
   \<and> (\<forall>app apps. getApps (admin_sdk w) = app # apps \<longrightarrow>
         initFirebase (admin_sdk w) (process_env w) = getFirestore (admin_sdk w) app)
   \<and> (\<forall>db. initFirebase (admin_sdk w) (process_env w) = Inr db \<longrightarrow>
         filter is_check (requests (snd (script w))) =
           map (\<lambda>u. Where_get ''users'' ''email'' (Str (email u)))
             (testUsers (clock (run w))))"
proof (intro conjI allI impI)
  show "fst (script w) =
     (case initFirebase (admin_sdk w) (process_env w) of Inl err \<Rightarrow> 1 | Inr db \<Rightarrow> 0)"
    by (rule exit_status)
next
  fix err
  assume "initFirebase (admin_sdk w) (process_env w) = Inl err"
  then show "snd (script w) =
           \<lparr>users = users (database w), merchants = merchants (database w),
            console = snd (loadEnvFile (env_file w)) @ banner
                      @ [(Stderr, cross_mark @ '' Failed to initialize Firebase Admin: '' @ err)],
            requests = []\<rparr>"
    by (simp add: script_def Let_def log_def)
next
  assume "getApps (admin_sdk w) = [] \<and> process_env w ''FIREBASE_PRIVATE_KEY'' = None"
  then show "initFirebase (admin_sdk w) (process_env w) = Inl undefined_replace"
    by (simp add: initFirebase_def)
next
  fix key err
  assume "getApps (admin_sdk w) = [] \<and> process_env w ''FIREBASE_PRIVATE_KEY'' = Some key
         \<and> cert (admin_sdk w)
             \<lparr>projectId = process_env w ''FIREBASE_PROJECT_ID'',
              clientEmail = process_env w ''FIREBASE_CLIENT_EMAIL'',
              privateKey = unescape_newlines key\<rparr> = Inl err"
  then show "initFirebase (admin_sdk w) (process_env w) = Inl err"
    by (simp add: initFirebase_def)
next
  fix key credential
  assume "getApps (admin_sdk w) = [] \<and> process_env w ''FIREBASE_PRIVATE_KEY'' = Some key
         \<and> cert (admin_sdk w)
             \<lparr>projectId = process_env w ''FIREBASE_PROJECT_ID'',
              clientEmail = process_env w ''FIREBASE_CLIENT_EMAIL'',
              privateKey = unescape_newlines key\<rparr> = Inr credential"
  then show "initFirebase (admin_sdk w) (process_env w) =
           (case initializeApp (admin_sdk w) credential of
              Inl err \<Rightarrow> Inl err | Inr app \<Rightarrow> getFirestore (admin_sdk w) app)"
    by (simp add: initFirebase_def)
next
  fix app apps
  assume "getApps (admin_sdk w) = app # apps"
  then show "initFirebase (admin_sdk w) (process_env w) = getFirestore (admin_sdk w) app"
    by (simp add: initFirebase_def)
next
  fix db
  assume "initFirebase (admin_sdk w) (process_env w) = Inr db"
  then show "filter is_check (requests (snd (script w))) =
           map (\<lambda>u. Where_get ''users'' ''email'' (Str (email u)))
             (testUsers (clock (run w)))"
    by (rule script_checks)
qed

text \<open>
  C8, the claim as stated, fails for the database that cannot be reached: the credentials
  are well formed, no bootstrap call throws, every request rejects. The script does not
  stop before seeding: it sends the three existence checks, persists nothing, and exits
  with status 0.
\<close>

theorem unreachable_database_counterexample:
  "initFirebase accepting_sdk
     (process_env \<lparr>env_file = Some ''FIREBASE_PRIVATE_KEY=k'', ambient = Map.empty,
                   admin_sdk = accepting_sdk, run = offline, database = empty_db\<rparr>) = Inr 3
   \<and> faults offline 0 Check = Some ''UNAVAILABLE''
   \<and> faults offline 1 Check = Some ''UNAVAILABLE''
   \<and> faults offline 2 Check = Some ''UNAVAILABLE''
   \<and> fst (script \<lparr>env_file = Some ''FIREBASE_PRIVATE_KEY=k'', ambient = Map.empty,
                   admin_sdk = accepting_sdk, run = offline, database = empty_db\<rparr>) = 0
   \<and> requests (snd (script \<lparr>env_file = Some ''FIREBASE_PRIVATE_KEY=k'', ambient = Map.empty,
                   admin_sdk = accepting_sdk, run = offline, database = empty_db\<rparr>)) =
       [Where_get ''users'' ''email'' (Str ''admin@eventnft.app''),
        Where_get ''users'' ''email'' (Str ''merchant@eventnft.app''),
        Where_get ''users'' ''email'' (Str ''user@eventnft.app'')]
   \<and> users (snd (script \<lparr>env_file = Some ''FIREBASE_PRIVATE_KEY=k'', ambient = Map.empty,
                   admin_sdk = accepting_sdk, run = offline, database = empty_db\<rparr>)) = []"
proof -
  let ?w = "\<lparr>env_file = Some ''FIREBASE_PRIVATE_KEY=k'', ambient = Map.empty,
             admin_sdk = accepting_sdk, run = offline, database = empty_db\<rparr>"
  have f: "fst (loadEnvFile (Some ''FIREBASE_PRIVATE_KEY=k'')) = [(''FIREBASE_PRIVATE_KEY'', ''k'')]"
    by (simp add: loader_eval)
  have e: "process_env ?w ''FIREBASE_PRIVATE_KEY'' = Some ''k''"
    by (simp add: process_env_def f merge_eval)
  have i: "initFirebase (admin_sdk ?w) (process_env ?w) = Inr 3"
    unfolding initFirebase_def e by (simp add: accepting_sdk_def)
  then have a: "initFirebase accepting_sdk (process_env ?w) = Inr 3" by simp
  have b: "faults offline 0 Check = Some ''UNAVAILABLE''"
    "faults offline 1 Check = Some ''UNAVAILABLE''"
    "faults offline 2 Check = Some ''UNAVAILABLE''"
    by (simp_all add: offline_def)
  have c: "fst (script ?w) = 0" unfolding exit_status i by simp
  have s: "snd (script ?w) =
      main offline (process_env ?w)
        (log Stdout (check_mark @ '' Firebase Admin initialized successfully'')
           \<lparr>users = [], merchants = [], console = snd (loadEnvFile (env_file ?w)) @ banner,
            requests = []\<rparr>)"
    using i by (simp add: script_def Let_def empty_db_def)
  have r: "requests (snd (script ?w)) =
       [Where_get ''users'' ''email'' (Str ''admin@eventnft.app''),
        Where_get ''users'' ''email'' (Str ''merchant@eventnft.app''),
        Where_get ''users'' ''email'' (Str ''user@eventnft.app'')]"
    unfolding s
    by (simp add: main_def Let_def displayCredentials_def createTestUsers_def testUsers_def
          requests_body offline_def log_def)
  have u: "users (snd (script ?w)) = []"
    unfolding s
    by (simp add: main_def Let_def displayCredentials_def createTestUsers_def testUsers_def
          users_body offline_def log_def)
  from a b c r u show ?thesis by blast
qed

theorem bootstrap_failure_fatal_witness:
  "fst (script \<lparr>env_file = Some ''FIREBASE_PROJECT_ID=demo'', ambient = Map.empty,
           admin_sdk = accepting_sdk, run = calm, database = empty_db\<rparr>) = 1
   \<and> requests (snd (script \<lparr>env_file = Some ''FIREBASE_PROJECT_ID=demo'', ambient = Map.empty,
           admin_sdk = accepting_sdk, run = calm, database = empty_db\<rparr>)) = []
   \<and> fst (script \<lparr>env_file = Some ''FIREBASE_PRIVATE_KEY=k'', ambient = Map.empty,
           admin_sdk = rejecting_sdk, run = calm, database = empty_db\<rparr>) = 1
   \<and> fst (script \<lparr>env_file = Some ''FIREBASE_PRIVATE_KEY=k'', ambient = Map.empty,
           admin_sdk = accepting_sdk, run = admin_write_fails, database = empty_db\<rparr>) = 0"
proof -
  let ?w1 = "\<lparr>env_file = Some ''FIREBASE_PROJECT_ID=demo'', ambient = Map.empty,
           admin_sdk = accepting_sdk, run = calm, database = empty_db\<rparr>"
  let ?w2 = "\<lparr>env_file = Some ''FIREBASE_PRIVATE_KEY=k'', ambient = Map.empty,
           admin_sdk = rejecting_sdk, run = calm, database = empty_db\<rparr>"
  let ?w3 = "\<lparr>env_file = Some ''FIREBASE_PRIVATE_KEY=k'', ambient = Map.empty,
           admin_sdk = accepting_sdk, run = admin_write_fails, database = empty_db\<rparr>"
  have f1: "fst (loadEnvFile (Some ''FIREBASE_PROJECT_ID=demo''))
              = [(''FIREBASE_PROJECT_ID'', ''demo'')]"
    by (simp add: loader_eval)
  have f2: "fst (loadEnvFile (Some ''FIREBASE_PRIVATE_KEY=k'')) = [(''FIREBASE_PRIVATE_KEY'', ''k'')]"
    by (simp add: loader_eval)
  have e1: "process_env ?w1 ''FIREBASE_PRIVATE_KEY'' = None"
    by (simp add: process_env_def f1 merge_eval)
  have e2: "process_env ?w2 ''FIREBASE_PRIVATE_KEY'' = Some ''k''"
    by (simp add: process_env_def f2 merge_eval)
  have e3: "process_env ?w3 ''FIREBASE_PRIVATE_KEY'' = Some ''k''"
    by (simp add: process_env_def f2 merge_eval)
  have i1: "initFirebase (admin_sdk ?w1) (process_env ?w1) = Inl undefined_replace"
    unfolding initFirebase_def e1 by (simp add: accepting_sdk_def)
  have i2: "initFirebase (admin_sdk ?w2) (process_env ?w2) = Inl ''Failed to parse private key''"
    unfolding initFirebase_def e2 by (simp add: rejecting_sdk_def)
  have i3: "initFirebase (admin_sdk ?w3) (process_env ?w3) = Inr 3"
    unfolding initFirebase_def e3 by (simp add: accepting_sdk_def)
  note t1 = bootstrap_failure_fatal [of ?w1]
  note t2 = bootstrap_failure_fatal [of ?w2]
  note t3 = bootstrap_failure_fatal [of ?w3]
  have a: "fst (script ?w1) = 1" using conjunct1 [OF t1] unfolding i1 by simp
  have "\<forall>err. initFirebase (admin_sdk ?w1) (process_env ?w1) = Inl err \<longrightarrow>
         snd (script ?w1) =
           \<lparr>users = users (database ?w1), merchants = merchants (database ?w1),
            console = snd (loadEnvFile (env_file ?w1)) @ banner
                      @ [(Stderr, cross_mark @ '' Failed to initialize Firebase Admin: '' @ err)],
            requests = []\<rparr>"
    using conjunct1 [OF conjunct2 [OF t1]] .
  with i1 have "snd (script ?w1) =
           \<lparr>users = users (database ?w1), merchants = merchants (database ?w1),
            console = snd (loadEnvFile (env_file ?w1)) @ banner
                      @ [(Stderr, cross_mark @ '' Failed to initialize Firebase Admin: ''
                            @ undefined_replace)],
            requests = []\<rparr>"
    by blast
  then have b: "requests (snd (script ?w1)) = []" by simp
  have c: "fst (script ?w2) = 1" using conjunct1 [OF t2] unfolding i2 by simp
  have d: "fst (script ?w3) = 0" using conjunct1 [OF t3] unfolding i3 by simp
  from a b c d show ?thesis by blast
qed

text \<open>
  C9 (as amended). The credential report is twenty fixed lines on standard output: for
  each of the three records its email, its plaintext password and the URL of its role,
  and for the admin the line \<open>Admin Key\<close> with the value of \<open>ADMIN_MASTER_KEY\<close>, or
  \<open>admin123\<close> when that variable is not set or is set to the empty string. Whenever the
  bootstrap succeeds the script prints the report right after the seeder's output,
  whatever the seeder's outcome, followed by the closing lines.
\<close>

theorem credential_report:
  "console (displayCredentials penv p) = console p @ map (Pair Stdout) (credential_lines penv)
   \<and> length (credential_lines penv) = 20
   \<and> credential_lines penv ! 5 =
       ''   Admin Key: '' @ (case penv ''ADMIN_MASTER_KEY'' of
                               None \<Rightarrow> ''admin123''
                             | Some k \<Rightarrow> if k = [] then ''admin123'' else k)
   \<and> map (\<lambda>i. credential_lines penv ! i) [3, 8, 12] =
       map (\<lambda>u. ''   Email: '' @ email u) (testUsers c)
   \<and> map (\<lambda>i. credential_lines penv ! i) [4, 9, 13] =
       map (\<lambda>u. ''   Password: '' @ password u) (testUsers c)
   \<and> map (\<lambda>i. credential_lines penv ! i) [6, 10, 14] =
       map (\<lambda>u. ''   URL: http://localhost:3000/auth/'' @ role u @ [CHR 0x0A]) (testUsers c)
   \<and> (\<forall>db. initFirebase (admin_sdk w) (process_env w) = Inr db \<longrightarrow>
         console (snd (script w)) =
           console (createTestUsers (run w)
             (log Stdout (check_mark @ '' Firebase Admin initialized successfully'')
               \<lparr>users = users (database w), merchants = merchants (database w),
                console = snd (loadEnvFile (env_file w)) @ banner, requests = []\<rparr>))
           @ map (Pair Stdout) (credential_lines (process_env w))
           @ map (Pair Stdout) closing_lines)"
proof (intro conjI allI impI)
  show "console (displayCredentials penv p) = console p @ map (Pair Stdout) (credential_lines penv)"
    by (simp add: displayCredentials_def)
  show "length (credential_lines penv) = 20"
    by (simp add: credential_lines_def)
  show "credential_lines penv ! 5 =
       ''   Admin Key: '' @ (case penv ''ADMIN_MASTER_KEY'' of
                               None \<Rightarrow> ''admin123''
                             | Some k \<Rightarrow> if k = [] then ''admin123'' else k)"
    by (simp add: credential_lines_def or_default_def)
  show "map (\<lambda>i. credential_lines penv ! i) [3, 8, 12] =
       map (\<lambda>u. ''   Email: '' @ email u) (testUsers c)"
    by (simp add: credential_lines_def testUsers_def)
  show "map (\<lambda>i. credential_lines penv ! i) [4, 9, 13] =
       map (\<lambda>u. ''   Password: '' @ password u) (testUsers c)"
    by (simp add: credential_lines_def testUsers_def)
  show "map (\<lambda>i. credential_lines penv ! i) [6, 10, 14] =
       map (\<lambda>u. ''   URL: http://localhost:3000/auth/'' @ role u @ [CHR 0x0A]) (testUsers c)"
    by (simp add: credential_lines_def testUsers_def)
next
  fix db
  assume "initFirebase (admin_sdk w) (process_env w) = Inr db"
  then show "console (snd (script w)) =
           console (createTestUsers (run w)
             (log Stdout (check_mark @ '' Firebase Admin initialized successfully'')
               \<lparr>users = users (database w), merchants = merchants (database w),
                console = snd (loadEnvFile (env_file w)) @ banner, requests = []\<rparr>))
           @ map (Pair Stdout) (credential_lines (process_env w))
           @ map (Pair Stdout) closing_lines"
    by (simp add: script_def main_def displayCredentials_def Let_def)
qed

theorem credential_report_witness:
  "credential_lines [''ADMIN_MASTER_KEY'' \<mapsto> ''s3cret''] ! 5 = ''   Admin Key: s3cret''
   \<and> credential_lines Map.empty ! 5 = ''   Admin Key: admin123''"
proof -
  from credential_report [of "[''ADMIN_MASTER_KEY'' \<mapsto> ''s3cret'']"]
  have "credential_lines [''ADMIN_MASTER_KEY'' \<mapsto> ''s3cret''] ! 5 =
       ''   Admin Key: '' @ (case [''ADMIN_MASTER_KEY'' \<mapsto> ''s3cret''] ''ADMIN_MASTER_KEY'' of
                               None \<Rightarrow> ''admin123''
                             | Some k \<Rightarrow> if k = [] then ''admin123'' else k)"
    by blast
  moreover from credential_report [of Map.empty]
  have "credential_lines Map.empty ! 5 =
       ''   Admin Key: '' @ (case (Map.empty :: env_vars) ''ADMIN_MASTER_KEY'' of
                               None \<Rightarrow> ''admin123''
                             | Some k \<Rightarrow> if k = [] then ''admin123'' else k)"
    by blast
  ultimately show ?thesis by simp
qed

text \<open>
  C9, the claim as stated, fails: with \<open>ADMIN_MASTER_KEY\<close> set, to the empty string, the
  report shows the default.
\<close>

theorem admin_key_empty_counterexample:
  "[''ADMIN_MASTER_KEY'' \<mapsto> ''''] ''ADMIN_MASTER_KEY'' = Some ''''
   \<and> credential_lines [''ADMIN_MASTER_KEY'' \<mapsto> ''''] ! 5 = ''   Admin Key: admin123''"
  by (simp add: credential_lines_def or_default_def)

end
